theory Spec2Isabelle
  imports Complex_Main
begin

section \<open>IdoLab: the entity model, the clock and the event injector of \<open>src/main.py\<close>\<close>

text \<open>
  The program is a single Python module. Its objects are mutable and shared: one
  \<open>Trainee\<close> object is referenced from the company roster, from the member list of a
  group and from the player. The embedding therefore keeps the \<open>Trainee\<close> and \<open>Group\<close>
  objects in an explicit store and represents a reference by its index in the store.
  \<open>Company\<close>, \<open>Player\<close> and \<open>GameState\<close> are referenced from one place only and are
  kept by value. Every method takes the store and returns the updated one.

  Python's \<open>int\<close> is unbounded: \<open>int\<close>. \<open>//\<close> is floor division: \<open>div\<close> on \<open>int\<close>.
\<close>

subsection \<open>The random source\<close>

text \<open>
  The module draws from the global generator of \<open>random\<close>. Each draw is made
  explicit: a function takes one raw value per call of \<open>random.randint\<close> that it can
  make, in the order of the calls, and one real per call of \<open>random.random\<close>.
  \<open>random.randint(a, b)\<close> returns some integer of \<open>[a, b]\<close>; \<open>randint a b r\<close> maps the
  raw value \<open>r\<close> into that range (every call of the module has \<open>a \<le> b\<close>).
  \<open>random.random()\<close> returns a double; it is represented by the real number it
  denotes, and so are the literals it is compared with: \<open>lit_0_08\<close>, \<open>lit_0_92\<close> and
  \<open>lit_0_1\<close> are the doubles nearest to 0.08, 0.92 and 0.1, which is what Python
  compares against.
\<close>

definition randint :: "int \<Rightarrow> int \<Rightarrow> nat \<Rightarrow> int" where
  "randint a b r = a + int (r mod nat (b - a + 1))"

definition lit_0_08 :: real where
  "lit_0_08 = 5764607523034235 / 72057594037927936"

definition lit_0_92 :: real where
  "lit_0_92 = 8286623314361713 / 9007199254740992"

definition lit_0_1 :: real where
  "lit_0_1 = 3602879701896397 / 36028797018963968"

subsection \<open>Formatting integers\<close>

text \<open>\<open>str(n)\<close> for an integer, as the f-strings of the module use it.\<close>

definition digit_char :: "nat \<Rightarrow> char" where
  "digit_char d = ''0123456789'' ! d"

function str_nat :: "nat \<Rightarrow> string" where
  "str_nat n = (if n < 10 then [digit_char n] else str_nat (n div 10) @ [digit_char (n mod 10)])"
  by pat_completeness auto
termination
  by (relation "measure id") auto

declare str_nat.simps [simp del]

definition str_int :: "int \<Rightarrow> string" where
  "str_int i = (if i < 0 then CHR ''-'' # str_nat (nat (- i)) else str_nat (nat i))"

subsection \<open>Data model\<close>

type_synonym tref = nat
type_synonym gref = nat

record trainee =
  name :: string
  vocal :: int
  dance :: int
  rap :: int
  visual :: int
  charisma :: int
  stamina :: int
  popularity :: int
  relationship :: int
  trainee_since :: int

text \<open>The dataclass constructor with its defaults: \<open>Trainee(name=nm)\<close>.\<close>

definition Trainee :: "string \<Rightarrow> trainee" where
  "Trainee nm = \<lparr>name = nm, vocal = 30, dance = 30, rap = 30, visual = 30, charisma = 30,
     stamina = 70, popularity = 10, relationship = 10, trainee_since = 1\<rparr>"

record group =
  g_name :: string
  members :: "tref list"
  g_concept :: string
  g_popularity :: int

record song_project =
  sp_title :: string
  sp_budget :: int
  sp_concept :: string

record company =
  c_name :: string
  money :: int
  reputation :: int
  trainees :: "tref list"
  groups :: "gref list"
  projects :: "song_project list"

record player =
  p_name :: string
  role :: string
  character :: "tref option"

record game_state =
  day :: int
  month :: int
  year :: int
  player :: "player option"
  company :: "company option"
  trainee_failures :: int
  message_log :: "string list"

text \<open>
  The object store: the \<open>Trainee\<close> and \<open>Group\<close> objects by reference. A new object
  is appended, so its reference is the length of the store before. A Python reference
  always designates an object; here that is a reference below the length of its store.
  A write through a reference out of range changes nothing and a read through one is
  unspecified, so a property that depends on such a read states the range.
\<close>

record heap =
  trainee_at :: "trainee list"
  group_at :: "group list"

definition upd_trainee :: "heap \<Rightarrow> tref \<Rightarrow> (trainee \<Rightarrow> trainee) \<Rightarrow> heap" where
  "upd_trainee h r f = h\<lparr>trainee_at := (trainee_at h)[r := f (trainee_at h ! r)]\<rparr>"

definition upd_group :: "heap \<Rightarrow> gref \<Rightarrow> (group \<Rightarrow> group) \<Rightarrow> heap" where
  "upd_group h g f = h\<lparr>group_at := (group_at h)[g := f (group_at h ! g)]\<rparr>"

datatype py_error = AttributeError

subsection \<open>Trainee\<close>

text \<open>
  \<open>train\<close> draws the gain first (\<open>r1\<close>), then the stamina loss (\<open>r2\<close>). The stat is
  compared in the order of the \<open>if\<close>/\<open>elif\<close> chain.
\<close>

definition train :: "trainee \<Rightarrow> string \<Rightarrow> int \<Rightarrow> nat \<Rightarrow> nat \<Rightarrow> string \<times> trainee" where
  "train t stat intensity r1 r2 =
    (let base_gain = randint (intensity - 2) (intensity + 2) r1;
         t1 = t\<lparr>stamina := max 0 (stamina t - randint 8 12 r2)\<rparr>;
         (message, t2) =
           (if stat = ''vocal'' then
              (''Vocal training +'' @ str_int base_gain @ ''.'', t1\<lparr>vocal := vocal t1 + base_gain\<rparr>)
            else if stat = ''dance'' then
              (''Dance training +'' @ str_int base_gain @ ''.'', t1\<lparr>dance := dance t1 + base_gain\<rparr>)
            else if stat = ''rap'' then
              (''Rap training +'' @ str_int base_gain @ ''.'', t1\<lparr>rap := rap t1 + base_gain\<rparr>)
            else if stat = ''charisma'' then
              (''Charisma workshop +'' @ str_int base_gain @ ''.'', t1\<lparr>charisma := charisma t1 + base_gain\<rparr>)
            else if stat = ''visual'' then
              (''Visual coaching +'' @ str_int base_gain @ ''.'', t1\<lparr>visual := visual t1 + base_gain\<rparr>)
            else (''Training focused on fundamentals.'', t1))
     in (message @ '' Stamina -10 (approx).'', t2))"

definition rest :: "trainee \<Rightarrow> nat \<Rightarrow> string \<times> trainee" where
  "rest t r =
    (let recovery = randint 10 20 r
     in (''Rested and recovered '' @ str_int recovery @ '' stamina.'',
         t\<lparr>stamina := min 100 (stamina t + recovery)\<rparr>))"

definition adjust_popularity :: "int \<Rightarrow> trainee \<Rightarrow> trainee" where
  "adjust_popularity amount t = t\<lparr>popularity := max 0 (popularity t + amount)\<rparr>"

definition adjust_relationship :: "int \<Rightarrow> trainee \<Rightarrow> trainee" where
  "adjust_relationship amount t = t\<lparr>relationship := max 0 (min 100 (relationship t + amount))\<rparr>"

definition score :: "trainee \<Rightarrow> int" where
  "score t = vocal t + dance t + rap t + visual t + charisma t"

subsection \<open>Group\<close>

text \<open>
  \<open>calculate_power\<close> reads the members through the store and draws the chemistry bonus;
  its local \<open>member_power\<close>, the part that is not random, is a definition of its own.
  \<open>debut_effect\<close> is given the reference of the group: it updates the group object and
  then every member in list order (a member listed twice is adjusted twice).
\<close>

definition member_power :: "heap \<Rightarrow> group \<Rightarrow> int" where
  "member_power h g =
    sum_list (map (\<lambda>m. score (trainee_at h ! m)) (members g)) div max (int (length (members g))) 1"

definition calculate_power :: "heap \<Rightarrow> group \<Rightarrow> nat \<Rightarrow> int" where
  "calculate_power h g r =
    (let chemistry_bonus = randint 0 15 r
     in member_power h g + chemistry_bonus)"

definition debut_effect :: "heap \<Rightarrow> gref \<Rightarrow> int \<Rightarrow> nat \<Rightarrow> nat \<Rightarrow> int \<times> heap" where
  "debut_effect h gr budget r1 r2 =
    (let power = calculate_power h (group_at h ! gr) r1;
         debut_pop = power div 5 + budget div 10 + randint (- 10) 15 r2;
         h1 = upd_group h gr (\<lambda>g. g\<lparr>g_popularity := g_popularity g + debut_pop\<rparr>);
         h2 = fold (\<lambda>m hh. upd_trainee hh m (adjust_popularity (debut_pop div 2)))
                (members (group_at h1 ! gr)) h1
     in (debut_pop, h2))"

subsection \<open>SongProject\<close>

text \<open>\<open>outcome\<close> draws the roll (\<open>r\<close>), then the critical check (\<open>crit\<close>, a draw of \<open>random.random\<close>).\<close>

definition outcome :: "song_project \<Rightarrow> int \<Rightarrow> nat \<Rightarrow> real \<Rightarrow> int" where
  "outcome p group_power r crit =
    (let roll = randint (- 15) 25 r;
         critical = (crit < lit_0_1);
         roll2 = (if critical then roll + 30 else roll);
         success = group_power div 3 + sp_budget p div 15 + roll2
     in success)"

subsection \<open>Company\<close>

text \<open>
  Every method returns its Python result, the updated company and the updated store.
  \<open>recruit_trainee\<close> allocates the new \<open>Trainee\<close> at the end of the store and returns
  its reference.
\<close>

definition recruit_trainee :: "company \<Rightarrow> heap \<Rightarrow> string \<Rightarrow> nat \<Rightarrow> nat \<Rightarrow> nat \<Rightarrow> tref \<times> company \<times> heap" where
  "recruit_trainee c h nm r1 r2 r3 =
    (let new = (Trainee nm)\<lparr>vocal := randint 20 40 r1, dance := randint 20 40 r2, rap := randint 20 40 r3\<rparr>;
         ref = length (trainee_at h);
         h1 = h\<lparr>trainee_at := trainee_at h @ [new]\<rparr>;
         c1 = c\<lparr>trainees := trainees c @ [ref]\<rparr>;
         c2 = c1\<lparr>money := money c1 - 300\<rparr>
     in (ref, c2, h1))"

definition schedule_training :: "company \<Rightarrow> heap \<Rightarrow> tref \<Rightarrow> string \<Rightarrow> nat \<Rightarrow> nat \<Rightarrow> string \<times> company \<times> heap" where
  "schedule_training c h tr focus r1 r2 =
    (let cost = 150 in
     if money c < cost then (''Not enough money for training.'', c, h)
     else
       (let c1 = c\<lparr>money := money c - cost\<rparr>;
            (message, t') = train (trainee_at h ! tr) focus 5 r1 r2;
            h1 = upd_trainee h tr (\<lambda>_. t')
        in (''Training scheduled for '' @ name t' @ ''. '' @ message @ '' Company money -''
              @ str_int cost @ ''.'', c1, h1)))"

definition plan_debut :: "company \<Rightarrow> heap \<Rightarrow> string list \<Rightarrow> string \<Rightarrow> int \<Rightarrow> nat \<Rightarrow> nat \<Rightarrow> string \<times> company \<times> heap" where
  "plan_debut c h names concept budget r1 r2 =
    (if money c < budget then (''Not enough money to plan debut.'', c, h)
     else
       (let selected = filter (\<lambda>t. name (trainee_at h ! t) \<in> set names) (trainees c) in
        if selected = [] then (''No valid trainees selected.'', c, h)
        else
          (let grp = \<lparr>g_name = ''Project '' @ concept, members = selected, g_concept = concept,
                      g_popularity = 0\<rparr>;
               gr = length (group_at h);
               h1 = h\<lparr>group_at := group_at h @ [grp]\<rparr>;
               c1 = c\<lparr>groups := groups c @ [gr]\<rparr>;
               c2 = c1\<lparr>money := money c1 - budget\<rparr>;
               (pop_gain, h2) = debut_effect h1 gr budget r1 r2;
               c3 = c2\<lparr>reputation := reputation c2 + pop_gain div 10\<rparr>
           in (''Debuted group '' @ g_name (group_at h2 ! gr) @ ''! Popularity +'' @ str_int pop_gain
                 @ ''. Budget -'' @ str_int budget @ ''.'', c3, h2))))"

definition release_song :: "company \<Rightarrow> heap \<Rightarrow> gref \<Rightarrow> string \<Rightarrow> int \<Rightarrow> nat \<Rightarrow> nat \<Rightarrow> real \<Rightarrow> string \<times> company \<times> heap" where
  "release_song c h gr title budget r1 r2 crit =
    (if money c < budget then (''Not enough funds for release.'', c, h)
     else
       (let project = \<lparr>sp_title = title, sp_budget = budget, sp_concept = ''Bright''\<rparr>;
            c1 = c\<lparr>projects := projects c @ [project]\<rparr>;
            c2 = c1\<lparr>money := money c1 - budget\<rparr>;
            power = calculate_power h (group_at h ! gr) r1;
            result = outcome project power r2 crit;
            h1 = upd_group h gr (\<lambda>g. g\<lparr>g_popularity := g_popularity g + result\<rparr>);
            c3 = c2\<lparr>reputation := reputation c2 + max 0 (result div 8)\<rparr>
        in (''Released '' @ [CHR 0x27] @ title @ [CHR 0x27] @ ''. Result +'' @ str_int result
              @ '' popularity for '' @ g_name (group_at h1 ! gr) @ ''. Cost '' @ str_int budget @ ''.'',
            c3, h1)))"

definition promote :: "company \<Rightarrow> heap \<Rightarrow> gref \<Rightarrow> int \<Rightarrow> nat \<Rightarrow> string \<times> company \<times> heap" where
  "promote c h gr budget r =
    (if money c < budget then (''Not enough money for promotion.'', c, h)
     else
       (let c1 = c\<lparr>money := money c - budget\<rparr>;
            gain = budget div 20 + randint 0 10 r;
            h1 = upd_group h gr (\<lambda>g. g\<lparr>g_popularity := g_popularity g + gain\<rparr>);
            c2 = c1\<lparr>reputation := reputation c1 + gain div 3\<rparr>
        in (''Promotions boost '' @ g_name (group_at h1 ! gr) @ [CHR 0x27] @ ''s popularity by ''
              @ str_int gain @ ''. Cost '' @ str_int budget @ ''.'', c2, h1)))"

definition update_finances :: "company \<Rightarrow> int \<Rightarrow> company" where
  "update_finances c amount = c\<lparr>money := money c + amount\<rparr>"

subsection \<open>GameState\<close>

text \<open>
  The two role tests of the module. \<open>trainee_mode s\<close> is the condition
  \<open>self.player and self.player.role == "Trainee" and self.player.character\<close>: it gives
  the character's reference when the condition holds. \<open>ceo_mode s\<close> is
  \<open>self.player and self.player.role == "CEO" and self.company\<close>: it gives the company.
  An instance of a dataclass is truthy, so each operand tests for \<open>None\<close> only.
\<close>

definition trainee_mode :: "game_state \<Rightarrow> tref option" where
  "trainee_mode s =
    (case player s of None \<Rightarrow> None
     | Some p \<Rightarrow> if role p = ''Trainee'' then character p else None)"

definition ceo_mode :: "game_state \<Rightarrow> company option" where
  "ceo_mode s =
    (case player s of None \<Rightarrow> None
     | Some p \<Rightarrow> if role p = ''CEO'' then company s else None)"

text \<open>\<open>monthly_evaluation\<close> draws the penalty (\<open>r\<close>) on the failing path only.\<close>

definition monthly_evaluation :: "game_state \<Rightarrow> heap \<Rightarrow> nat \<Rightarrow> string \<times> game_state \<times> heap" where
  "monthly_evaluation s h r =
    (case trainee_mode s of
       Some tr \<Rightarrow>
         (let t = trainee_at h ! tr;
              sc = score t + popularity t;
              threshold = 220 + year s * 10
          in if sc \<ge> threshold then
               (let h1 = upd_trainee h tr (adjust_relationship 5);
                    h2 = upd_trainee h1 tr (adjust_popularity 5)
                in (''Monthly evaluation passed! Score '' @ str_int sc @ '' / '' @ str_int threshold
                      @ ''. Relationship +5.'', s, h2))
             else
               (let s1 = s\<lparr>trainee_failures := trainee_failures s + 1\<rparr>;
                    penalty = randint 5 10 r;
                    h1 = upd_trainee h tr (adjust_relationship (- penalty))
                in (''Evaluation failed. Score '' @ str_int sc @ '' / '' @ str_int threshold
                      @ ''. Relationship -'' @ str_int penalty @ ''.'', s1, h1)))
     | None \<Rightarrow>
         (case company s of
            Some c \<Rightarrow>
              (let income = sum_list (map (\<lambda>g. g_popularity (group_at h ! g) div 2) (groups c));
                   c1 = update_finances c income
               in (''Monthly income report: earned '' @ str_int income @ '' from active groups.'',
                   s\<lparr>company := Some c1\<rparr>, h))
          | None \<Rightarrow> (''The month rolls by without major events.'', s, h)))"

definition advance_day :: "game_state \<Rightarrow> heap \<Rightarrow> nat \<Rightarrow> game_state \<times> heap" where
  "advance_day s h r =
    (let s1 = s\<lparr>day := day s + 1\<rparr> in
     if day s1 > 30 then
       (let s2 = s1\<lparr>day := 1\<rparr>;
            s3 = s2\<lparr>month := month s2 + 1\<rparr>;
            s4 = (if month s3 > 12 then s3\<lparr>month := 1, year := year s3 + 1\<rparr> else s3);
            (msg, s5, h1) = monthly_evaluation s4 h r
        in (s5\<lparr>message_log := message_log s5 @ [msg]\<rparr>, h1))
     else (s1, h))"

definition check_victory_or_defeat :: "game_state \<Rightarrow> heap \<Rightarrow> string option" where
  "check_victory_or_defeat s h =
    (let ceo_verdict =
           (case ceo_mode s of
              None \<Rightarrow> None
            | Some c \<Rightarrow>
                if money c < - 2000 then Some ''Bankruptcy! Your company could not pay its bills.''
                else if \<exists>g \<in> set (groups c). g_popularity (group_at h ! g) \<ge> 300
                  then Some ''Success! One of your groups became a top act.''
                else if year s > 5 then
                  (if reputation c < 80
                   then Some (''Time'' @ [CHR 0x27] @ ''s up. The industry moved on before you produced a hit.'')
                   else Some ''Legendary CEO!'')
                else None)
     in case ceo_verdict of
          Some v \<Rightarrow> Some v
        | None \<Rightarrow>
            (case trainee_mode s of
               None \<Rightarrow> None
             | Some tr \<Rightarrow>
                 (let t = trainee_at h ! tr in
                  if popularity t \<ge> 200 \<and> score t \<ge> 350 then Some ''You debuted and became a sensation!''
                  else if trainee_failures s \<ge> 3 then Some ''You were cut after repeated failed evaluations.''
                  else if year s > 5 then
                    (if popularity t < 150 then Some ''The window closed before you could debut.''
                     else Some ''Late bloomer debut success!'')
                  else None)))"

subsection \<open>Trainee mode actions\<close>

text \<open>
  \<open>handle_trainee_action\<close> reads the focus from the terminal for choice 1. \<open>typed\<close> is the
  value of \<open>input(...).strip().lower()\<close>; the fallback \<open>or "dance"\<close> is modelled.
  Choice 1 draws twice (\<open>r1\<close>, \<open>r2\<close>), choices 2, 3 and 4 once (\<open>r1\<close>).
\<close>

definition handle_trainee_action :: "game_state \<Rightarrow> heap \<Rightarrow> int \<Rightarrow> string \<Rightarrow> nat \<Rightarrow> nat \<Rightarrow> string \<times> game_state \<times> heap" where
  "handle_trainee_action s h choice typed r1 r2 =
    (case (case player s of Some p \<Rightarrow> character p | None \<Rightarrow> None) of
       None \<Rightarrow> (''No trainee data loaded.'', s, h)
     | Some tr \<Rightarrow>
         if choice = 1 then
           (let focus = (if typed = [] then ''dance'' else typed);
                (msg, t') = train (trainee_at h ! tr) focus 5 r1 r2
            in (msg, s, upd_trainee h tr (\<lambda>_. t')))
         else if choice = 2 then
           (let (msg, t') = rest (trainee_at h ! tr) r1
            in (msg, s, upd_trainee h tr (\<lambda>_. t')))
         else if choice = 3 then
           (let gain = randint 3 10 r1;
                h1 = upd_trainee h tr (adjust_relationship gain);
                h2 = upd_trainee h1 tr (adjust_popularity (gain div 2))
            in (''Shared practice room gossip. Relationship +'' @ str_int gain @ '', Popularity +''
                  @ str_int (gain div 2) @ ''.'', s, h2))
         else if choice = 4 then
           (let sc = score (trainee_at h ! tr) + randint (- 10) 25 r1;
                threshold = 210 + year s * 10
            in if sc \<ge> threshold then
                 (let h1 = upd_trainee h tr (adjust_popularity 10);
                      h2 = upd_trainee h1 tr (adjust_relationship 5)
                  in (''Evaluation success! Score '' @ str_int sc @ '' / '' @ str_int threshold
                        @ ''. Popularity +10.'', s, h2))
               else
                 (let s1 = s\<lparr>trainee_failures := trainee_failures s + 1\<rparr>;
                      h1 = upd_trainee h tr (adjust_relationship (- 5))
                  in (''Evaluation tough. Score '' @ str_int sc @ '' / '' @ str_int threshold
                        @ ''. Failure count '' @ str_int (trainee_failures s1) @ ''.'', s1, h1)))
         else if choice = 5 then
           (let t = trainee_at h ! tr
            in (''Stats - Vocal:'' @ str_int (vocal t) @ '' Dance:'' @ str_int (dance t)
                  @ '' Rap:'' @ str_int (rap t) @ '' Visual:'' @ str_int (visual t)
                  @ '' Charisma:'' @ str_int (charisma t) @ '' Stamina:'' @ str_int (stamina t)
                  @ '' Popularity:'' @ str_int (popularity t)
                  @ '' Relationship:'' @ str_int (relationship t), s, h))
         else (''Day passes while you reflect on your dreams.'', s, h))"

subsection \<open>Random events\<close>

text \<open>
  \<open>max(groups, key=lambda g: g.popularity)\<close>: the first group of greatest popularity.
\<close>

fun max_by_popularity :: "heap \<Rightarrow> gref \<Rightarrow> gref list \<Rightarrow> gref" where
  "max_by_popularity h best [] = best"
| "max_by_popularity h best (g # gs) =
     (if g_popularity (group_at h ! g) > g_popularity (group_at h ! best)
      then max_by_popularity h g gs else max_by_popularity h best gs)"

text \<open>
  The body of each \<open>if\<close> of \<open>random_event\<close>. \<open>Inr (Some x)\<close> is a \<open>return\<close>, \<open>Inr None\<close>
  is control leaving the body without returning, and \<open>Inl AttributeError\<close> is what
  \<open>state.player.role\<close> raises when \<open>state.player\<close> is \<open>None\<close>. At most one
  \<open>random.randint\<close> runs in a call, so one raw value \<open>r\<close> serves both bodies.
\<close>

definition negative_event :: "game_state \<Rightarrow> heap \<Rightarrow> nat \<Rightarrow> py_error + (string \<times> game_state \<times> heap) option" where
  "negative_event s h r =
    (case player s of
       None \<Rightarrow> Inl AttributeError
     | Some p \<Rightarrow>
         (case (if role p = ''CEO'' then company s else None) of
            Some c \<Rightarrow>
              (let loss = randint 200 800 r;
                   c1 = c\<lparr>money := money c - loss\<rparr>
               in Inr (Some (''Unexpected venue cancellation. Lost '' @ str_int loss @ '' in fees.'',
                             s\<lparr>company := Some c1\<rparr>, h)))
          | None \<Rightarrow>
              (case character p of
                 Some tr \<Rightarrow>
                   (let injury = randint 5 15 r;
                        h1 = upd_trainee h tr (\<lambda>t. t\<lparr>stamina := max 0 (stamina t - injury)\<rparr>)
                    in Inr (Some (''Minor injury during rehearsal. Stamina -'' @ str_int injury @ ''.'',
                                  s, h1)))
               | None \<Rightarrow> Inr None)))"

definition positive_event :: "game_state \<Rightarrow> heap \<Rightarrow> nat \<Rightarrow> py_error + (string \<times> game_state \<times> heap) option" where
  "positive_event s h r =
    (case player s of
       None \<Rightarrow> Inl AttributeError
     | Some p \<Rightarrow>
         (case (if role p = ''CEO'' then
                  (case company s of Some c \<Rightarrow> if groups c \<noteq> [] then Some c else None | None \<Rightarrow> None)
                else None) of
            Some c \<Rightarrow>
              (let bonus = randint 300 900 r;
                   c1 = c\<lparr>money := money c + bonus\<rparr>;
                   top_group = max_by_popularity h (hd (groups c)) (tl (groups c));
                   h1 = upd_group h top_group (\<lambda>g. g\<lparr>g_popularity := g_popularity g + bonus div 10\<rparr>)
               in Inr (Some (''Viral moment! '' @ g_name (group_at h1 ! top_group)
                               @ '' trend boosts funds by '' @ str_int bonus @ ''.'',
                             s\<lparr>company := Some c1\<rparr>, h1)))
          | None \<Rightarrow>
              (case character p of
                 Some tr \<Rightarrow>
                   (let boost = randint 8 18 r;
                        h1 = upd_trainee h tr (adjust_popularity boost)
                    in Inr (Some (''Fan edit goes viral. Popularity +'' @ str_int boost @ ''.'', s, h1)))
               | None \<Rightarrow> Inr None)))"

text \<open>
  \<open>random_event\<close>: the draw \<open>roll\<close>, then the two \<open>if\<close> statements in sequence; the
  second is reached when the first is skipped or left without a \<open>return\<close>.
\<close>

definition random_event :: "game_state \<Rightarrow> heap \<Rightarrow> real \<Rightarrow> nat \<Rightarrow> py_error + (string option \<times> game_state \<times> heap)" where
  "random_event s h roll r =
    (case (if roll < lit_0_08 then negative_event s h r else Inr None) of
       Inl e \<Rightarrow> Inl e
     | Inr (Some (msg, s', h')) \<Rightarrow> Inr (Some msg, s', h')
     | Inr None \<Rightarrow>
         (case (if roll > lit_0_92 then positive_event s h r else Inr None) of
            Inl e \<Rightarrow> Inl e
          | Inr (Some (msg, s', h')) \<Rightarrow> Inr (Some msg, s', h')
          | Inr None \<Rightarrow> Inr (None, s, h)))"

subsection \<open>Iterating the operations\<close>

text \<open>\<open>advance_day\<close> called once per element of \<open>rs\<close>, each call with its own raw value.\<close>

fun advance_days :: "game_state \<Rightarrow> heap \<Rightarrow> nat list \<Rightarrow> game_state \<times> heap" where
  "advance_days s h [] = (s, h)"
| "advance_days s h (r # rs) = (case advance_day s h r of (s', h') \<Rightarrow> advance_days s' h' rs)"

text \<open>
  The operations that touch a group, as one step each on the game state and the store.
  The methods of \<open>Company\<close> run on \<open>state.company\<close>; with no company there is no object
  to call them on and the step does nothing. An exception of \<open>random_event\<close> is raised
  before any assignment and leaves the state as it was.
\<close>

datatype step =
    Debut_effect gref int nat nat
  | Release_song gref string int nat nat real
  | Promote gref int nat
  | Random_event real nat
  | Monthly_evaluation nat

fun step_budget :: "step \<Rightarrow> int" where
  "step_budget (Debut_effect g b r1 r2) = b"
| "step_budget (Release_song g t b r1 r2 cr) = b"
| "step_budget (Promote g b r) = b"
| "step_budget (Random_event roll r) = 0"
| "step_budget (Monthly_evaluation r) = 0"

fun do_step :: "game_state \<times> heap \<Rightarrow> step \<Rightarrow> game_state \<times> heap" where
  "do_step (s, h) (Debut_effect g b r1 r2) = (s, snd (debut_effect h g b r1 r2))"
| "do_step (s, h) (Release_song g t b r1 r2 cr) =
     (case company s of
        None \<Rightarrow> (s, h)
      | Some c \<Rightarrow> (case release_song c h g t b r1 r2 cr of (msg, c', h') \<Rightarrow> (s\<lparr>company := Some c'\<rparr>, h')))"
| "do_step (s, h) (Promote g b r) =
     (case company s of
        None \<Rightarrow> (s, h)
      | Some c \<Rightarrow> (case promote c h g b r of (msg, c', h') \<Rightarrow> (s\<lparr>company := Some c'\<rparr>, h')))"
| "do_step (s, h) (Random_event roll r) =
     (case random_event s h roll r of Inl e \<Rightarrow> (s, h) | Inr (msg, s', h') \<Rightarrow> (s', h'))"
| "do_step (s, h) (Monthly_evaluation r) =
     (case monthly_evaluation s h r of (msg, s', h') \<Rightarrow> (s', h'))"

text \<open>
  The trainee action \<open>Participate in evaluation\<close> (choice 4) taken once per element of
  \<open>rs\<close>, with nothing in between: no random event, no \<open>advance_day\<close>.
\<close>

fun evaluations :: "game_state \<Rightarrow> heap \<Rightarrow> nat list \<Rightarrow> game_state \<times> heap" where
  "evaluations s h [] = (s, h)"
| "evaluations s h (r # rs) =
     (case handle_trainee_action s h 4 [] r 0 of (msg, s', h') \<Rightarrow> evaluations s' h' rs)"

subsection \<open>The ranges of the data model\<close>

text \<open>
  The ranges that section 3 of the specification gives a \<open>Trainee\<close>: stamina and
  relationship in \<open>[0, 100]\<close>, popularity not negative.
\<close>

definition trainee_inv :: "trainee \<Rightarrow> bool" where
  "trainee_inv t \<longleftrightarrow>
     0 \<le> stamina t \<and> stamina t \<le> 100 \<and> 0 \<le> popularity t \<and> 0 \<le> relationship t \<and> relationship t \<le> 100"

definition trainees_ok :: "heap \<Rightarrow> bool" where
  "trainees_ok h \<longleftrightarrow> (\<forall>t \<in> set (trainee_at h). trainee_inv t)"

text \<open>
  Every group of the store has a popularity that is not negative and members whose
  average score is at least 50.
\<close>

definition groups_ok :: "heap \<Rightarrow> bool" where
  "groups_ok h \<longleftrightarrow> (\<forall>g \<in> set (group_at h). 0 \<le> g_popularity g \<and> 50 \<le> member_power h g)"

subsection \<open>Concrete states\<close>

text \<open>A company that has spent all its money, and a store with no object.\<close>

definition broke_company :: company where
  "broke_company = \<lparr>c_name = ''IdoLab Entertainment'', money = 0, reputation = 10,
     trainees = [], groups = [], projects = []\<rparr>"

definition empty_heap :: heap where
  "empty_heap = \<lparr>trainee_at = [], group_at = []\<rparr>"

text \<open>
  The state that \<open>initialize_game\<close> builds for the role \<open>Trainee\<close> and the name
  \<open>Player\<close>: three starters and the player's character, which is also on the roster.
\<close>

definition start_company :: company where
  "start_company = \<lparr>c_name = ''IdoLab Entertainment'', money = 5000, reputation = 10,
     trainees = [0, 1, 2, 3], groups = [], projects = []\<rparr>"

definition start_heap :: heap where
  "start_heap = \<lparr>trainee_at =
      [(Trainee ''Ara'')\<lparr>popularity := 5\<rparr>, (Trainee ''Min'')\<lparr>popularity := 12\<rparr>,
       (Trainee ''Jisu'')\<lparr>popularity := 20\<rparr>,
       (Trainee ''Player'')\<lparr>vocal := 35, dance := 35, rap := 30, charisma := 35, visual := 35,
          stamina := 80\<rparr>],
     group_at = []\<rparr>"

definition trainee_start :: game_state where
  "trainee_start = \<lparr>day = 1, month = 1, year = 1,
     player = Some \<lparr>p_name = ''Player'', role = ''Trainee'', character = Some 3\<rparr>,
     company = Some start_company, trainee_failures = 0, message_log = []\<rparr>"

definition ceo_start :: game_state where
  "ceo_start = \<lparr>day = 1, month = 1, year = 1,
     player = Some \<lparr>p_name = ''Player'', role = ''CEO'', character = None\<rparr>,
     company = Some start_company, trainee_failures = 0, message_log = []\<rparr>"

text \<open>A company with one group that has no member, and a state with a company but no player.\<close>

definition solo_company :: company where
  "solo_company = \<lparr>c_name = ''IdoLab Entertainment'', money = 100, reputation = 10,
     trainees = [], groups = [0], projects = []\<rparr>"

definition memberless_heap :: heap where
  "memberless_heap = \<lparr>trainee_at = [],
     group_at = [\<lparr>g_name = ''Project Fresh'', members = [], g_concept = ''Fresh'', g_popularity = 0\<rparr>]\<rparr>"

definition band_heap :: heap where
  "band_heap = \<lparr>trainee_at = [Trainee ''Ara'', Trainee ''Min''],
     group_at = [\<lparr>g_name = ''Project Fresh'', members = [0, 1], g_concept = ''Fresh'', g_popularity = 100\<rparr>]\<rparr>"

definition playerless_state :: game_state where
  "playerless_state = \<lparr>day = 1, month = 1, year = 1, player = None,
     company = Some solo_company, trainee_failures = 0, message_log = []\<rparr>"

text \<open>A trainee with every skill at 70 and popularity 200.\<close>

definition star_trainee :: trainee where
  "star_trainee = (Trainee ''Player'')\<lparr>vocal := 70, dance := 70, rap := 70, visual := 70, charisma := 70,
     popularity := 200\<rparr>"

text \<open>
  The state of \<open>trainee_start\<close> after two failed evaluations of choice 4: two failures
  counted, and the relationship of the character down from 10 to 0.
\<close>

definition strained_heap :: heap where
  "strained_heap = start_heap\<lparr>trainee_at := (trainee_at start_heap)[3 :=
     (Trainee ''Player'')\<lparr>vocal := 35, dance := 35, rap := 30, charisma := 35, visual := 35,
        stamina := 80, relationship := 0\<rparr>]\<rparr>"

definition strained_state :: game_state where
  "strained_state = trainee_start\<lparr>trainee_failures := 2\<rparr>"

text \<open>A company in CEO mode with a group of two starters, and a run of five steps on it.\<close>

definition band_state :: game_state where
  "band_state = \<lparr>day = 1, month = 1, year = 1,
     player = Some \<lparr>p_name = ''Player'', role = ''CEO'', character = None\<rparr>,
     company = Some (solo_company\<lparr>money := 5000, trainees := [0, 1]\<rparr>),
     trainee_failures = 0, message_log = []\<rparr>"

definition band_steps :: "step list" where
  "band_steps = [Release_song 0 ''Debut'' 100 0 0 (1 / 2), Promote 0 100 3, Debut_effect 0 100 0 0,
     Random_event (99 / 100) 5, Monthly_evaluation 0]"

section \<open>Properties\<close>

subsection \<open>The random source\<close>

lemma randint_bounds: "a \<le> b \<Longrightarrow> a \<le> randint a b r \<and> randint a b r \<le> b"
  unfolding randint_def
proof -
  assume ab: "a \<le> b"
  then have pos: "0 < nat (b - a + 1)" by simp
  have "r mod nat (b - a + 1) < nat (b - a + 1)" using pos by (rule mod_less_divisor)
  then have "int (r mod nat (b - a + 1)) < b - a + 1" using ab by linarith
  then show "a \<le> a + int (r mod nat (b - a + 1)) \<and> a + int (r mod nat (b - a + 1)) \<le> b" by simp
qed

lemma randint_onto: "a \<le> k \<Longrightarrow> k \<le> b \<Longrightarrow> randint a b (nat (k - a)) = k"
  unfolding randint_def by simp

subsection \<open>Formatting\<close>

lemma str_nat_digit: "n < 10 \<Longrightarrow> str_nat n = [digit_char n]"
  by (simp add: str_nat.simps [of n])

lemma str_nat_more: "10 \<le> n \<Longrightarrow> str_nat n = str_nat (n div 10) @ [digit_char (n mod 10)]"
  by (simp add: str_nat.simps [of n])

subsection \<open>Company: the affordability check\<close>

text \<open>
  The four methods of \<open>Company\<close> that return a message test the money first.
  \<open>schedule_training\<close> (cost 150), \<open>plan_debut\<close>, \<open>release_song\<close> and \<open>promote\<close> (cost:
  the budget) return their failure message and leave the company and every object of
  the store as they were when the money is below the cost. With enough money they
  deduct the cost and apply their effect; \<open>plan_debut\<close> stops before that, with nothing
  changed, when no trainee is selected.
\<close>

lemma sibling_cost_guards:
  "(money c < 150 \<longrightarrow>
      schedule_training c h tr focus ra rb = (''Not enough money for training.'', c, h)) \<and>
   (150 \<le> money c \<longrightarrow>
      snd (schedule_training c h tr focus ra rb) =
        (c\<lparr>money := money c - 150\<rparr>, upd_trainee h tr (\<lambda>_. snd (train (trainee_at h ! tr) focus 5 ra rb)))) \<and>
   (money c < budget \<longrightarrow>
      plan_debut c h names concept budget ra rb = (''Not enough money to plan debut.'', c, h)) \<and>
   (budget \<le> money c \<and> filter (\<lambda>t. name (trainee_at h ! t) \<in> set names) (trainees c) = [] \<longrightarrow>
      plan_debut c h names concept budget ra rb = (''No valid trainees selected.'', c, h)) \<and>
   (budget \<le> money c \<and> filter (\<lambda>t. name (trainee_at h ! t) \<in> set names) (trainees c) \<noteq> [] \<longrightarrow>
      money (fst (snd (plan_debut c h names concept budget ra rb))) = money c - budget \<and>
      groups (fst (snd (plan_debut c h names concept budget ra rb))) = groups c @ [length (group_at h)]) \<and>
   (money c < budget \<longrightarrow>
      release_song c h gr title budget ra rb crit = (''Not enough funds for release.'', c, h)) \<and>
   (budget \<le> money c \<longrightarrow>
      money (fst (snd (release_song c h gr title budget ra rb crit))) = money c - budget \<and>
      projects (fst (snd (release_song c h gr title budget ra rb crit))) =
        projects c @ [\<lparr>sp_title = title, sp_budget = budget, sp_concept = ''Bright''\<rparr>] \<and>
      snd (snd (release_song c h gr title budget ra rb crit)) =
        upd_group h gr (\<lambda>g. g\<lparr>g_popularity := g_popularity g
          + outcome \<lparr>sp_title = title, sp_budget = budget, sp_concept = ''Bright''\<rparr>
              (calculate_power h (group_at h ! gr) ra) rb crit\<rparr>)) \<and>
   (money c < budget \<longrightarrow>
      promote c h gr budget ra = (''Not enough money for promotion.'', c, h)) \<and>
   (budget \<le> money c \<longrightarrow>
      money (fst (snd (promote c h gr budget ra))) = money c - budget \<and>
      snd (snd (promote c h gr budget ra)) =
        upd_group h gr (\<lambda>g. g\<lparr>g_popularity := g_popularity g + (budget div 20 + randint 0 10 ra)\<rparr>))"
proof -
  have a: "money c < 150 \<longrightarrow>
      schedule_training c h tr focus ra rb = (''Not enough money for training.'', c, h)"
    by (simp add: schedule_training_def)
  have b: "150 \<le> money c \<longrightarrow>
      snd (schedule_training c h tr focus ra rb) =
        (c\<lparr>money := money c - 150\<rparr>, upd_trainee h tr (\<lambda>_. snd (train (trainee_at h ! tr) focus 5 ra rb)))"
    by (simp add: schedule_training_def Let_def split: prod.splits)
  have c: "money c < budget \<longrightarrow>
      plan_debut c h names concept budget ra rb = (''Not enough money to plan debut.'', c, h)"
    by (simp add: plan_debut_def)
  have d0: "budget \<le> money c \<and> filter (\<lambda>t. name (trainee_at h ! t) \<in> set names) (trainees c) = [] \<longrightarrow>
      plan_debut c h names concept budget ra rb = (''No valid trainees selected.'', c, h)"
    by (simp add: plan_debut_def Let_def)
  have d: "budget \<le> money c \<and> filter (\<lambda>t. name (trainee_at h ! t) \<in> set names) (trainees c) \<noteq> [] \<longrightarrow>
      money (fst (snd (plan_debut c h names concept budget ra rb))) = money c - budget \<and>
      groups (fst (snd (plan_debut c h names concept budget ra rb))) = groups c @ [length (group_at h)]"
    by (simp add: plan_debut_def Let_def split: prod.splits)
  have e: "money c < budget \<longrightarrow>
      release_song c h gr title budget ra rb crit = (''Not enough funds for release.'', c, h)"
    by (simp add: release_song_def)
  have f: "budget \<le> money c \<longrightarrow>
      money (fst (snd (release_song c h gr title budget ra rb crit))) = money c - budget \<and>
      projects (fst (snd (release_song c h gr title budget ra rb crit))) =
        projects c @ [\<lparr>sp_title = title, sp_budget = budget, sp_concept = ''Bright''\<rparr>] \<and>
      snd (snd (release_song c h gr title budget ra rb crit)) =
        upd_group h gr (\<lambda>g. g\<lparr>g_popularity := g_popularity g
          + outcome \<lparr>sp_title = title, sp_budget = budget, sp_concept = ''Bright''\<rparr>
              (calculate_power h (group_at h ! gr) ra) rb crit\<rparr>)"
    by (simp add: release_song_def Let_def)
  have g: "money c < budget \<longrightarrow>
      promote c h gr budget ra = (''Not enough money for promotion.'', c, h)"
    by (simp add: promote_def)
  have i: "budget \<le> money c \<longrightarrow>
      money (fst (snd (promote c h gr budget ra))) = money c - budget \<and>
      snd (snd (promote c h gr budget ra)) =
        upd_group h gr (\<lambda>g. g\<lparr>g_popularity := g_popularity g + (budget div 20 + randint 0 10 ra)\<rparr>)"
    by (simp add: promote_def Let_def)
  from a b c d0 d e f g i show ?thesis by blast
qed

text \<open>
  The guards at work on a company with a group of two starters: without money every one
  of the four calls returns its message and changes nothing; with 5000 each deducts
  its cost, and \<open>plan_debut\<close> of Ara adds the group of reference 1.
\<close>

lemma sibling_cost_guards_example:
  "schedule_training (solo_company\<lparr>money := 0, trainees := [0, 1]\<rparr>) band_heap 0 ''vocal'' 0 0 =
     (''Not enough money for training.'', solo_company\<lparr>money := 0, trainees := [0, 1]\<rparr>, band_heap) \<and>
   plan_debut (solo_company\<lparr>money := 0, trainees := [0, 1]\<rparr>) band_heap [''Ara''] ''Dark'' 100 0 0 =
     (''Not enough money to plan debut.'', solo_company\<lparr>money := 0, trainees := [0, 1]\<rparr>, band_heap) \<and>
   release_song (solo_company\<lparr>money := 0, trainees := [0, 1]\<rparr>) band_heap 0 ''Debut'' 100 0 0 (1 / 2) =
     (''Not enough funds for release.'', solo_company\<lparr>money := 0, trainees := [0, 1]\<rparr>, band_heap) \<and>
   promote (solo_company\<lparr>money := 0, trainees := [0, 1]\<rparr>) band_heap 0 100 0 =
     (''Not enough money for promotion.'', solo_company\<lparr>money := 0, trainees := [0, 1]\<rparr>, band_heap) \<and>
   money (fst (snd (schedule_training (solo_company\<lparr>money := 5000, trainees := [0, 1]\<rparr>) band_heap 0
     ''vocal'' 0 0))) = 4850 \<and>
   money (fst (snd (plan_debut (solo_company\<lparr>money := 5000, trainees := [0, 1]\<rparr>) band_heap [''Ara'']
     ''Dark'' 100 0 0))) = 4900 \<and>
   groups (fst (snd (plan_debut (solo_company\<lparr>money := 5000, trainees := [0, 1]\<rparr>) band_heap [''Ara'']
     ''Dark'' 100 0 0))) = [0, 1] \<and>
   money (fst (snd (release_song (solo_company\<lparr>money := 5000, trainees := [0, 1]\<rparr>) band_heap 0
     ''Debut'' 100 0 0 (1 / 2)))) = 4900 \<and>
   map g_popularity (group_at (snd (snd (release_song (solo_company\<lparr>money := 5000, trainees := [0, 1]\<rparr>)
     band_heap 0 ''Debut'' 100 0 0 (1 / 2))))) = [141] \<and>
   money (fst (snd (promote (solo_company\<lparr>money := 5000, trainees := [0, 1]\<rparr>) band_heap 0 100 0))) = 4900 \<and>
   map g_popularity (group_at (snd (snd (promote (solo_company\<lparr>money := 5000, trainees := [0, 1]\<rparr>)
     band_heap 0 100 0)))) = [105]"
proof -
  let ?poor = "solo_company\<lparr>money := 0, trainees := [0, 1]\<rparr>"
  let ?rich = "solo_company\<lparr>money := 5000, trainees := [0, 1]\<rparr>"
  have poor: "money ?poor < 150 \<and> money ?poor < 100" by (simp add: solo_company_def)
  have rich: "150 \<le> money ?rich \<and> 100 \<le> money ?rich \<and> money ?rich = 5000 \<and> groups ?rich = [0]"
    by (simp add: solo_company_def)
  have sel: "filter (\<lambda>t. name (trainee_at band_heap ! t) \<in> set [''Ara'']) (trainees ?rich) \<noteq> []"
    by (simp add: band_heap_def Trainee_def)
  have len: "length (group_at band_heap) = 1" by (simp add: band_heap_def)
  have rel: "map g_popularity (group_at (upd_group band_heap 0 (\<lambda>g. g\<lparr>g_popularity := g_popularity g
          + outcome \<lparr>sp_title = ''Debut'', sp_budget = 100, sp_concept = ''Bright''\<rparr>
              (calculate_power band_heap (group_at band_heap ! 0) 0) 0 (1 / 2)\<rparr>))) = [141]"
    by (simp add: upd_group_def band_heap_def outcome_def calculate_power_def member_power_def
        score_def Trainee_def randint_def lit_0_1_def Let_def)
  have pro: "map g_popularity (group_at (upd_group band_heap 0
        (\<lambda>g. g\<lparr>g_popularity := g_popularity g + (100 div 20 + randint 0 10 0)\<rparr>))) = [105]"
    by (simp add: upd_group_def band_heap_def randint_def)
  note P = sibling_cost_guards [where c = ?poor and h = band_heap and tr = 0 and focus = "''vocal''"
      and ra = 0 and rb = 0 and budget = 100 and names = "[''Ara'']" and concept = "''Dark''"
      and gr = 0 and title = "''Debut''" and crit = "1 / 2"]
  note R = sibling_cost_guards [where c = ?rich and h = band_heap and tr = 0 and focus = "''vocal''"
      and ra = 0 and rb = 0 and budget = 100 and names = "[''Ara'']" and concept = "''Dark''"
      and gr = 0 and title = "''Debut''" and crit = "1 / 2"]
  have p: "schedule_training ?poor band_heap 0 ''vocal'' 0 0 = (''Not enough money for training.'', ?poor, band_heap) \<and>
      plan_debut ?poor band_heap [''Ara''] ''Dark'' 100 0 0 = (''Not enough money to plan debut.'', ?poor, band_heap) \<and>
      release_song ?poor band_heap 0 ''Debut'' 100 0 0 (1 / 2) = (''Not enough funds for release.'', ?poor, band_heap) \<and>
      promote ?poor band_heap 0 100 0 = (''Not enough money for promotion.'', ?poor, band_heap)"
    using P poor by blast
  have r1: "snd (schedule_training ?rich band_heap 0 ''vocal'' 0 0) =
        (?rich\<lparr>money := money ?rich - 150\<rparr>,
         upd_trainee band_heap 0 (\<lambda>_. snd (train (trainee_at band_heap ! 0) ''vocal'' 5 0 0)))"
    using R rich by blast
  have r2: "money (fst (snd (plan_debut ?rich band_heap [''Ara''] ''Dark'' 100 0 0))) = money ?rich - 100 \<and>
      groups (fst (snd (plan_debut ?rich band_heap [''Ara''] ''Dark'' 100 0 0)))
        = groups ?rich @ [length (group_at band_heap)]"
    using R rich sel by blast
  have r3: "money (fst (snd (release_song ?rich band_heap 0 ''Debut'' 100 0 0 (1 / 2)))) = money ?rich - 100 \<and>
      snd (snd (release_song ?rich band_heap 0 ''Debut'' 100 0 0 (1 / 2))) =
        upd_group band_heap 0 (\<lambda>g. g\<lparr>g_popularity := g_popularity g
          + outcome \<lparr>sp_title = ''Debut'', sp_budget = 100, sp_concept = ''Bright''\<rparr>
              (calculate_power band_heap (group_at band_heap ! 0) 0) 0 (1 / 2)\<rparr>)"
    using R rich by blast
  have r4: "money (fst (snd (promote ?rich band_heap 0 100 0))) = money ?rich - 100 \<and>
      snd (snd (promote ?rich band_heap 0 100 0)) =
        upd_group band_heap 0 (\<lambda>g. g\<lparr>g_popularity := g_popularity g + (100 div 20 + randint 0 10 0)\<rparr>)"
    using R rich by blast
  have m1: "money (fst (snd (schedule_training ?rich band_heap 0 ''vocal'' 0 0))) = 4850"
    using r1 rich by simp
  have m2: "money (fst (snd (plan_debut ?rich band_heap [''Ara''] ''Dark'' 100 0 0))) = 4900 \<and>
      groups (fst (snd (plan_debut ?rich band_heap [''Ara''] ''Dark'' 100 0 0))) = [0, 1]"
    using r2 rich len by simp
  have m3: "money (fst (snd (release_song ?rich band_heap 0 ''Debut'' 100 0 0 (1 / 2)))) = 4900 \<and>
      map g_popularity (group_at (snd (snd (release_song ?rich band_heap 0 ''Debut'' 100 0 0 (1 / 2))))) = [141]"
    using r3 rich rel by simp
  have m4: "money (fst (snd (promote ?rich band_heap 0 100 0))) = 4900 \<and>
      map g_popularity (group_at (snd (snd (promote ?rich band_heap 0 100 0)))) = [105]"
    using r4 rich pro by simp
  from p m1 m2 m3 m4 show ?thesis by blast
qed

text \<open>
  \<open>recruit_trainee\<close> has no such test. For every company and store it appends the new
  trainee to the store and its reference to the roster, deducts 300 and returns the
  reference.
\<close>

lemma recruit_trainee_result:
  "recruit_trainee c h nm ra rb rc =
     (length (trainee_at h),
      c\<lparr>trainees := trainees c @ [length (trainee_at h)], money := money c - 300\<rparr>,
      h\<lparr>trainee_at := trainee_at h @
         [(Trainee nm)\<lparr>vocal := randint 20 40 ra, dance := randint 20 40 rb, rap := randint 20 40 rc\<rparr>]\<rparr>)"
  by (simp add: recruit_trainee_def Let_def)

text \<open>
  C1. The claim asks of every costed method of \<open>Company\<close> that with the money below the
  cost it returns a failure message and mutates nothing. The code breaks it in
  \<open>recruit_trainee\<close> (cost 300), the one method of the five without the test: a company
  with money 0 and an empty store recruits Ara all the same. The call returns the
  reference 0 of the new trainee and no message, the roster becomes \<open>[0]\<close>, the store
  holds the new trainee and the money falls to \<open>-300\<close>.
\<close>

theorem recruit_trainee_unguarded:
  "money broke_company < 300 \<and>
   recruit_trainee broke_company empty_heap ''Ara'' 0 0 0 =
     (0,
      \<lparr>c_name = ''IdoLab Entertainment'', money = - 300, reputation = 10,
         trainees = [0], groups = [], projects = []\<rparr>,
      \<lparr>trainee_at =
         [\<lparr>name = ''Ara'', vocal = 20, dance = 20, rap = 20, visual = 30, charisma = 30,
            stamina = 70, popularity = 10, relationship = 10, trainee_since = 1\<rparr>],
         group_at = []\<rparr>) \<and>
   snd (recruit_trainee broke_company empty_heap ''Ara'' 0 0 0) \<noteq> (broke_company, empty_heap)"
  by (simp add: recruit_trainee_def broke_company_def empty_heap_def Trainee_def randint_def Let_def)

subsection \<open>Trainee\<close>

text \<open>
  C8. \<open>rest\<close> sets the stamina to \<open>min(100, stamina + recovery)\<close> with a recovery drawn
  from \<open>[10, 20]\<close>: afterwards the stamina is at most 100, and for a trainee of the data
  model (stamina at most 100) it is not below the stamina before the call.
\<close>

theorem rest_stamina:
  "stamina (snd (rest t r)) = min 100 (stamina t + randint 10 20 r) \<and>
   10 \<le> randint 10 20 r \<and> randint 10 20 r \<le> 20 \<and>
   stamina (snd (rest t r)) \<le> 100 \<and>
   (stamina t \<le> 100 \<longrightarrow> stamina t \<le> stamina (snd (rest t r)))"
  using randint_bounds [of 10 20 r] by (simp add: rest_def Let_def)

theorem rest_stamina_witness:
  "stamina (Trainee ''Ara'') \<le> 100 \<and> stamina (Trainee ''Ara'') \<le> stamina (snd (rest (Trainee ''Ara'') 4))
   \<and> stamina (snd (rest (Trainee ''Ara'') 4)) = 84"
  using rest_stamina [of "Trainee ''Ara''" 4] by (simp add: Trainee_def randint_def)


subsection \<open>Trainee: the ranges are kept\<close>

lemma trainee_inv_train: "trainee_inv t \<Longrightarrow> trainee_inv (snd (train t stat intensity ra rb))"
  using randint_bounds [of 8 12 rb]
  by (simp add: train_def trainee_inv_def Let_def split: prod.splits if_splits)

lemma trainee_inv_rest: "trainee_inv t \<Longrightarrow> trainee_inv (snd (rest t r))"
  using randint_bounds [of 10 20 r]
  by (simp add: rest_def trainee_inv_def Let_def)

lemma trainee_inv_adjust_popularity: "trainee_inv t \<Longrightarrow> trainee_inv (adjust_popularity x t)"
  by (simp add: adjust_popularity_def trainee_inv_def)

lemma trainee_inv_adjust_relationship: "trainee_inv t \<Longrightarrow> trainee_inv (adjust_relationship x t)"
  by (simp add: adjust_relationship_def trainee_inv_def)

lemma trainee_inv_injury:
  "trainee_inv t \<Longrightarrow> trainee_inv (t\<lparr>stamina := max 0 (stamina t - randint 5 15 r)\<rparr>)"
  using randint_bounds [of 5 15 r] by (simp add: trainee_inv_def)

lemma trainees_ok_upd_trainee:
  assumes "trainees_ok h"
    and "r < length (trainee_at h) \<Longrightarrow> trainee_inv (f (trainee_at h ! r))"
  shows "trainees_ok (upd_trainee h r f)"
proof (cases "r < length (trainee_at h)")
  case True
  have "set ((trainee_at h)[r := f (trainee_at h ! r)]) \<subseteq> insert (f (trainee_at h ! r)) (set (trainee_at h))"
    by (rule set_update_subset_insert)
  with assms True show ?thesis
    by (auto simp add: trainees_ok_def upd_trainee_def)
next
  case False
  then have "length (trainee_at h) \<le> r" by simp
  then have "(trainee_at h)[r := f (trainee_at h ! r)] = trainee_at h" by (rule list_update_beyond)
  with assms(1) show ?thesis by (simp add: trainees_ok_def upd_trainee_def)
qed

lemma trainees_ok_upd_trainee_pres:
  assumes "trainees_ok h" and "\<And>t. trainee_inv t \<Longrightarrow> trainee_inv (f t)"
  shows "trainees_ok (upd_trainee h r f)"
proof (rule trainees_ok_upd_trainee [OF assms(1)])
  assume "r < length (trainee_at h)"
  then have "trainee_at h ! r \<in> set (trainee_at h)" by simp
  with assms(1) have "trainee_inv (trainee_at h ! r)" by (simp add: trainees_ok_def)
  then show "trainee_inv (f (trainee_at h ! r))" by (rule assms(2))
qed

lemma trainees_ok_upd_group: "trainees_ok (upd_group h g f) = trainees_ok h"
  by (simp add: trainees_ok_def upd_group_def)

lemma trainees_ok_fold_adjust:
  "trainees_ok h \<Longrightarrow> trainees_ok (fold (\<lambda>m hh. upd_trainee hh m (adjust_popularity d)) ms h)"
proof (induction ms arbitrary: h)
  case Nil
  then show ?case by simp
next
  case (Cons m ms)
  have "trainees_ok (upd_trainee h m (adjust_popularity d))"
    using Cons.prems trainee_inv_adjust_popularity by (rule trainees_ok_upd_trainee_pres)
  then show ?case using Cons.IH by simp
qed

lemma trainees_ok_debut_effect:
  "trainees_ok h \<Longrightarrow> trainees_ok (snd (debut_effect h gr budget ra rb))"
  by (simp add: debut_effect_def Let_def trainees_ok_fold_adjust trainees_ok_upd_group)

lemma trainees_ok_schedule_training:
  assumes "trainees_ok h"
  shows "trainees_ok (snd (snd (schedule_training c h tr focus ra rb)))"
proof (cases "money c < 150")
  case True
  with assms show ?thesis by (simp add: schedule_training_def)
next
  case False
  have "trainees_ok (upd_trainee h tr (\<lambda>_. snd (train (trainee_at h ! tr) focus 5 ra rb)))"
  proof (rule trainees_ok_upd_trainee [OF assms])
    assume "tr < length (trainee_at h)"
    then have "trainee_inv (trainee_at h ! tr)" using assms by (simp add: trainees_ok_def)
    then show "trainee_inv (snd (train (trainee_at h ! tr) focus 5 ra rb))"
      by (rule trainee_inv_train)
  qed
  with False show ?thesis by (simp add: schedule_training_def Let_def case_prod_beta)
qed

lemma trainees_ok_plan_debut:
  assumes "trainees_ok h"
  shows "trainees_ok (snd (snd (plan_debut c h names concept budget ra rb)))"
proof -
  have ext: "trainees_ok (h\<lparr>group_at := gs\<rparr>)" for gs
    using assms by (simp add: trainees_ok_def)
  show ?thesis
    using assms ext trainees_ok_debut_effect
    by (simp add: plan_debut_def Let_def split: prod.splits) (metis snd_conv)
qed

lemma trainees_ok_monthly_evaluation:
  assumes "trainees_ok h"
  shows "trainees_ok (snd (snd (monthly_evaluation s h r)))"
proof -
  have a: "trainees_ok (upd_trainee (upd_trainee h tr (adjust_relationship 5)) tr (adjust_popularity 5))" for tr
    using assms trainee_inv_adjust_relationship trainee_inv_adjust_popularity
    by (intro trainees_ok_upd_trainee_pres)
  have b: "trainees_ok (upd_trainee h tr (adjust_relationship x))" for tr x
    using assms trainee_inv_adjust_relationship by (rule trainees_ok_upd_trainee_pres)
  show ?thesis
    using assms a b by (simp add: monthly_evaluation_def Let_def split: option.splits)
qed

lemma trainees_ok_advance_day:
  assumes "trainees_ok h"
  shows "trainees_ok (snd (advance_day s h r))"
  using trainees_ok_monthly_evaluation [OF assms] assms
  by (simp add: advance_day_def Let_def split: prod.splits) (metis snd_conv)


lemma trainees_ok_handle_trainee_action:
  assumes "trainees_ok h"
  shows "trainees_ok (snd (snd (handle_trainee_action s h choice typed ra rb)))"
proof -
  have tr: "trainees_ok (upd_trainee h tr (\<lambda>_. snd (train (trainee_at h ! tr) stat 5 ra rb)))" for tr stat
  proof (rule trainees_ok_upd_trainee [OF assms])
    assume "tr < length (trainee_at h)"
    then have "trainee_inv (trainee_at h ! tr)" using assms by (simp add: trainees_ok_def)
    then show "trainee_inv (snd (train (trainee_at h ! tr) stat 5 ra rb))" by (rule trainee_inv_train)
  qed
  have re: "trainees_ok (upd_trainee h tr (\<lambda>_. snd (rest (trainee_at h ! tr) ra)))" for tr
  proof (rule trainees_ok_upd_trainee [OF assms])
    assume "tr < length (trainee_at h)"
    then have "trainee_inv (trainee_at h ! tr)" using assms by (simp add: trainees_ok_def)
    then show "trainee_inv (snd (rest (trainee_at h ! tr) ra))" by (rule trainee_inv_rest)
  qed
  have rp: "trainees_ok (upd_trainee (upd_trainee h tr (adjust_relationship x)) tr (adjust_popularity y))" for tr x y
    using assms trainee_inv_adjust_relationship trainee_inv_adjust_popularity
    by (intro trainees_ok_upd_trainee_pres)
  have pr: "trainees_ok (upd_trainee (upd_trainee h tr (adjust_popularity y)) tr (adjust_relationship x))" for tr x y
    using assms trainee_inv_adjust_relationship trainee_inv_adjust_popularity
    by (intro trainees_ok_upd_trainee_pres)
  have r: "trainees_ok (upd_trainee h tr (adjust_relationship x))" for tr x
    using assms trainee_inv_adjust_relationship by (rule trainees_ok_upd_trainee_pres)
  show ?thesis
    using assms tr re rp pr r
    by (simp add: handle_trainee_action_def Let_def case_prod_beta split: option.splits)
qed

lemma trainees_ok_negative_event:
  assumes "trainees_ok h" and "negative_event s h r = Inr (Some (msg, s', h'))"
  shows "trainees_ok h'"
proof -
  have inj: "trainees_ok (upd_trainee h tr (\<lambda>t. t\<lparr>stamina := max 0 (stamina t - randint 5 15 r)\<rparr>))" for tr
    using assms(1) trainee_inv_injury by (rule trainees_ok_upd_trainee_pres)
  show ?thesis
    using assms inj
    by (auto simp add: negative_event_def Let_def split: option.splits if_splits)
qed

lemma trainees_ok_positive_event:
  assumes "trainees_ok h" and "positive_event s h r = Inr (Some (msg, s', h'))"
  shows "trainees_ok h'"
proof -
  have boost: "trainees_ok (upd_trainee h tr (adjust_popularity x))" for tr x
    using assms(1) trainee_inv_adjust_popularity by (rule trainees_ok_upd_trainee_pres)
  show ?thesis
    using assms boost
    by (auto simp add: positive_event_def Let_def trainees_ok_upd_group split: option.splits if_splits)
qed

lemma trainees_ok_random_event:
  assumes "trainees_ok h" and "random_event s h roll r = Inr (m, s', h')"
  shows "trainees_ok h'"
  using assms trainees_ok_negative_event [OF assms(1)] trainees_ok_positive_event [OF assms(1)]
  by (auto simp add: random_event_def split: sum.splits option.splits if_splits)

lemma trainee_inv_Trainee: "trainee_inv ((Trainee nm)\<lparr>vocal := a, dance := b, rap := c\<rparr>)"
  by (simp add: Trainee_def trainee_inv_def)

lemma trainees_ok_recruit_trainee:
  "trainees_ok h \<Longrightarrow> trainees_ok (snd (snd (recruit_trainee c h nm ra rb rc)))"
  by (simp add: recruit_trainee_def Let_def trainees_ok_def trainee_inv_Trainee)

text \<open>
  C7. After \<open>adjust_relationship(x)\<close> the relationship is in \<open>[0, 100]\<close> for any \<open>x\<close>
  and any trainee; after \<open>adjust_popularity\<close> the popularity is not negative; \<open>train\<close>
  leaves the stamina at 0 or more and \<open>rest\<close> at 100 or less. A trainee within the ranges
  of the data model (\<open>trainee_inv\<close>) stays within them under \<open>train\<close>, \<open>rest\<close>,
  \<open>adjust_popularity\<close> and \<open>adjust_relationship\<close>, and a store whose trainees are all
  within them stays so under every function that calls these or writes a trainee:
  \<open>schedule_training\<close>, \<open>debut_effect\<close>, \<open>plan_debut\<close>, \<open>monthly_evaluation\<close>,
  \<open>advance_day\<close>, \<open>handle_trainee_action\<close>, \<open>random_event\<close> and \<open>recruit_trainee\<close>.
\<close>

theorem trainee_ranges_kept:
  "0 \<le> relationship (adjust_relationship x t) \<and> relationship (adjust_relationship x t) \<le> 100 \<and>
   0 \<le> popularity (adjust_popularity x t) \<and>
   0 \<le> stamina (snd (train t stat intensity ra rb)) \<and>
   stamina (snd (rest t r)) \<le> 100 \<and>
   (trainee_inv t \<longrightarrow>
      trainee_inv (snd (train t stat intensity ra rb)) \<and> trainee_inv (snd (rest t r)) \<and>
      trainee_inv (adjust_popularity x t) \<and> trainee_inv (adjust_relationship x t)) \<and>
   (trainees_ok h \<longrightarrow>
      trainees_ok (snd (snd (schedule_training c h tr focus ra rb))) \<and>
      trainees_ok (snd (debut_effect h gr budget ra rb)) \<and>
      trainees_ok (snd (snd (plan_debut c h names concept budget ra rb))) \<and>
      trainees_ok (snd (snd (monthly_evaluation s h r))) \<and>
      trainees_ok (snd (advance_day s h r)) \<and>
      trainees_ok (snd (snd (handle_trainee_action s h choice typed ra rb))) \<and>
      (\<forall>m s' h'. random_event s h roll r = Inr (m, s', h') \<longrightarrow> trainees_ok h') \<and>
      trainees_ok (snd (snd (recruit_trainee c h nm ra rb rc))))"
proof -
  have a: "0 \<le> relationship (adjust_relationship x t) \<and> relationship (adjust_relationship x t) \<le> 100"
    by (simp add: adjust_relationship_def)
  have b: "0 \<le> popularity (adjust_popularity x t)"
    by (simp add: adjust_popularity_def)
  have c: "0 \<le> stamina (snd (train t stat intensity ra rb))"
    by (simp add: train_def Let_def)
  have d: "stamina (snd (rest t r)) \<le> 100"
    by (simp add: rest_def Let_def)
  have e: "trainee_inv t \<longrightarrow>
      trainee_inv (snd (train t stat intensity ra rb)) \<and> trainee_inv (snd (rest t r)) \<and>
      trainee_inv (adjust_popularity x t) \<and> trainee_inv (adjust_relationship x t)"
    using trainee_inv_train trainee_inv_rest trainee_inv_adjust_popularity trainee_inv_adjust_relationship
    by blast
  have f: "trainees_ok h \<longrightarrow>
      trainees_ok (snd (snd (schedule_training c h tr focus ra rb))) \<and>
      trainees_ok (snd (debut_effect h gr budget ra rb)) \<and>
      trainees_ok (snd (snd (plan_debut c h names concept budget ra rb))) \<and>
      trainees_ok (snd (snd (monthly_evaluation s h r))) \<and>
      trainees_ok (snd (advance_day s h r)) \<and>
      trainees_ok (snd (snd (handle_trainee_action s h choice typed ra rb))) \<and>
      (\<forall>m s' h'. random_event s h roll r = Inr (m, s', h') \<longrightarrow> trainees_ok h') \<and>
      trainees_ok (snd (snd (recruit_trainee c h nm ra rb rc)))"
  proof (intro impI conjI allI)
    assume ok: "trainees_ok h"
    show "trainees_ok (snd (snd (schedule_training c h tr focus ra rb)))"
      using ok by (rule trainees_ok_schedule_training)
    show "trainees_ok (snd (debut_effect h gr budget ra rb))"
      using ok by (rule trainees_ok_debut_effect)
    show "trainees_ok (snd (snd (plan_debut c h names concept budget ra rb)))"
      using ok by (rule trainees_ok_plan_debut)
    show "trainees_ok (snd (snd (monthly_evaluation s h r)))"
      using ok by (rule trainees_ok_monthly_evaluation)
    show "trainees_ok (snd (advance_day s h r))"
      using ok by (rule trainees_ok_advance_day)
    show "trainees_ok (snd (snd (handle_trainee_action s h choice typed ra rb)))"
      using ok by (rule trainees_ok_handle_trainee_action)
    show "trainees_ok (snd (snd (recruit_trainee c h nm ra rb rc)))"
      using ok by (rule trainees_ok_recruit_trainee)
    fix m s' h'
    assume "random_event s h roll r = Inr (m, s', h')"
    with ok show "trainees_ok h'" by (rule trainees_ok_random_event)
  qed
  from a b c d e f show ?thesis by blast
qed

theorem trainee_ranges_kept_witness:
  "trainee_inv (Trainee ''Ara'') \<and>
   trainee_inv (snd (train (Trainee ''Ara'') ''vocal'' 5 0 4)) \<and>
   stamina (snd (train (Trainee ''Ara'') ''vocal'' 5 0 4)) = 58 \<and>
   relationship (adjust_relationship (- 500) (Trainee ''Ara'')) = 0 \<and>
   popularity (adjust_popularity (- 500) (Trainee ''Ara'')) = 0 \<and>
   trainees_ok start_heap \<and>
   trainees_ok (snd (snd (handle_trainee_action trainee_start start_heap 4 [] 0 4))) \<and>
   trainees_ok (snd (snd (monthly_evaluation trainee_start start_heap 0)))"
proof -
  have inv: "trainee_inv (Trainee ''Ara'')"
    by (simp add: trainee_inv_def Trainee_def)
  have ok: "trainees_ok start_heap"
    by (simp add: trainees_ok_def trainee_inv_def start_heap_def Trainee_def)
  have vals: "stamina (snd (train (Trainee ''Ara'') ''vocal'' 5 0 4)) = 58 \<and>
      relationship (adjust_relationship (- 500) (Trainee ''Ara'')) = 0 \<and>
      popularity (adjust_popularity (- 500) (Trainee ''Ara'')) = 0"
    by (simp add: Trainee_def train_def randint_def adjust_relationship_def adjust_popularity_def Let_def)
  have kept: "trainee_inv (snd (train (Trainee ''Ara'') ''vocal'' 5 0 4)) \<and>
      trainees_ok (snd (snd (handle_trainee_action trainee_start start_heap 4 [] 0 4))) \<and>
      trainees_ok (snd (snd (monthly_evaluation trainee_start start_heap 0)))"
    using inv ok
      trainee_ranges_kept [where t = "Trainee ''Ara''" and stat = "''vocal''" and intensity = 5
        and ra = 0 and rb = 4 and h = start_heap and s = trainee_start and choice = 4
        and typed = "[]" and r = 0]
    by blast
  from inv ok vals kept show ?thesis by simp
qed

subsection \<open>The clock\<close>

lemma monthly_evaluation_clock:
  "day (fst (snd (monthly_evaluation s h r))) = day s \<and>
   month (fst (snd (monthly_evaluation s h r))) = month s \<and>
   year (fst (snd (monthly_evaluation s h r))) = year s \<and>
   message_log (fst (snd (monthly_evaluation s h r))) = message_log s \<and>
   player (fst (snd (monthly_evaluation s h r))) = player s"
  by (simp add: monthly_evaluation_def Let_def split: option.splits)

lemma advance_day_within_month:
  "day s + 1 \<le> 30 \<Longrightarrow> advance_day s h r = (s\<lparr>day := day s + 1\<rparr>, h)"
  by (simp add: advance_day_def Let_def)

lemma advance_day_rollover:
  "30 < day s + 1 \<Longrightarrow> month s + 1 \<le> 12 \<Longrightarrow>
   advance_day s h r =
     (case monthly_evaluation (s\<lparr>day := 1, month := month s + 1\<rparr>) h r of
        (msg, s', h') \<Rightarrow> (s'\<lparr>message_log := message_log s' @ [msg]\<rparr>, h'))"
  by (simp add: advance_day_def Let_def)

lemma advance_day_year_rollover:
  "30 < day s + 1 \<Longrightarrow> 12 < month s + 1 \<Longrightarrow>
   advance_day s h r =
     (case monthly_evaluation (s\<lparr>day := 1, month := 1, year := year s + 1\<rparr>) h r of
        (msg, s', h') \<Rightarrow> (s'\<lparr>message_log := message_log s' @ [msg]\<rparr>, h'))"
  by (simp add: advance_day_def Let_def)

lemma advance_days_within_month:
  "day s + int (length rs) \<le> 30 \<Longrightarrow>
   advance_days s h rs = (s\<lparr>day := day s + int (length rs)\<rparr>, h)"
proof (induction rs arbitrary: s)
  case Nil
  then show ?case by simp
next
  case (Cons r rs)
  then have "day s + 1 \<le> 30" by simp
  then have step: "advance_day s h r = (s\<lparr>day := day s + 1\<rparr>, h)"
    by (rule advance_day_within_month)
  have "day (s\<lparr>day := day s + 1\<rparr>) + int (length rs) \<le> 30" using Cons.prems by simp
  then have "advance_days (s\<lparr>day := day s + 1\<rparr>) h rs =
      ((s\<lparr>day := day s + 1\<rparr>)\<lparr>day := day (s\<lparr>day := day s + 1\<rparr>) + int (length rs)\<rparr>, h)"
    by (rule Cons.IH)
  with step show ?case by (simp add: add.assoc)
qed

lemma advance_days_append:
  "advance_days s h (rs @ qs) = (case advance_days s h rs of (s', h') \<Rightarrow> advance_days s' h' qs)"
  by (induction rs arbitrary: s h) (auto split: prod.splits)

lemma thirty_days:
  assumes "day s = 1" and "month s = 1" and "length rs = 30"
  shows "advance_days s h rs =
     (case monthly_evaluation (s\<lparr>day := 1, month := 2\<rparr>) h (last rs) of
        (msg, s', h') \<Rightarrow> (s'\<lparr>message_log := message_log s' @ [msg]\<rparr>, h'))"
proof -
  from assms(3) have ne: "rs \<noteq> []" by auto
  then have split: "rs = butlast rs @ [last rs]" by simp
  have len: "length (butlast rs) = 29" using assms(3) by simp
  have "day s + int (length (butlast rs)) \<le> 30" using assms(1) len by simp
  then have first: "advance_days s h (butlast rs) = (s\<lparr>day := 30\<rparr>, h)"
    using advance_days_within_month [of s "butlast rs" h] assms(1) len by simp
  have "advance_days s h rs = advance_days s h (butlast rs @ [last rs])" using split by simp
  also have "\<dots> = advance_days (s\<lparr>day := 30\<rparr>) h [last rs]"
    by (simp only: advance_days_append first split: prod.splits) simp
  also have "\<dots> = advance_day (s\<lparr>day := 30\<rparr>) h (last rs)" by (simp split: prod.splits)
  also have "\<dots> = (case monthly_evaluation (s\<lparr>day := 1, month := 2\<rparr>) h (last rs) of
        (msg, s', h') \<Rightarrow> (s'\<lparr>message_log := message_log s' @ [msg]\<rparr>, h'))"
    using advance_day_rollover [of "s\<lparr>day := 30\<rparr>" h "last rs"] assms(2) by simp
  finally show ?thesis .
qed

text \<open>
  C3. From \<open>day = 1\<close>, \<open>month = 1\<close>, thirty calls of \<open>advance_day\<close> give \<open>day = 1\<close>,
  \<open>month = 2\<close> and the same year; the state is the one that a single call of
  \<open>monthly_evaluation\<close> (made in the thirtieth call, on the state already rolled over)
  leaves, with the message that call returned appended to \<open>message_log\<close>, which grows by
  that one entry. In general \<open>advance_day\<close> only adds 1 to the day while the day stays
  at most 30; otherwise it sets the day to 1 and adds 1 to the month, sets the month to 1
  and adds 1 to the year when the month would pass 12, and in both cases calls
  \<open>monthly_evaluation\<close> and appends its message.
\<close>

theorem advance_day_clock:
  "(day s = 1 \<and> month s = 1 \<and> length rs = 30 \<longrightarrow>
      advance_days s h rs =
        (case monthly_evaluation (s\<lparr>day := 1, month := 2\<rparr>) h (last rs) of
           (msg, s', h') \<Rightarrow> (s'\<lparr>message_log := message_log s' @ [msg]\<rparr>, h')) \<and>
      day (fst (advance_days s h rs)) = 1 \<and>
      month (fst (advance_days s h rs)) = 2 \<and>
      year (fst (advance_days s h rs)) = year s \<and>
      message_log (fst (advance_days s h rs)) =
        message_log s @ [fst (monthly_evaluation (s\<lparr>day := 1, month := 2\<rparr>) h (last rs))]) \<and>
   (day s + 1 \<le> 30 \<longrightarrow> advance_day s h r = (s\<lparr>day := day s + 1\<rparr>, h)) \<and>
   (30 < day s + 1 \<and> month s + 1 \<le> 12 \<longrightarrow>
      advance_day s h r =
        (case monthly_evaluation (s\<lparr>day := 1, month := month s + 1\<rparr>) h r of
           (msg, s', h') \<Rightarrow> (s'\<lparr>message_log := message_log s' @ [msg]\<rparr>, h'))) \<and>
   (30 < day s + 1 \<and> 12 < month s + 1 \<longrightarrow>
      advance_day s h r =
        (case monthly_evaluation (s\<lparr>day := 1, month := 1, year := year s + 1\<rparr>) h r of
           (msg, s', h') \<Rightarrow> (s'\<lparr>message_log := message_log s' @ [msg]\<rparr>, h')))"
proof -
  have month_part: "advance_days s h rs =
        (case monthly_evaluation (s\<lparr>day := 1, month := 2\<rparr>) h (last rs) of
           (msg, s', h') \<Rightarrow> (s'\<lparr>message_log := message_log s' @ [msg]\<rparr>, h')) \<and>
      day (fst (advance_days s h rs)) = 1 \<and>
      month (fst (advance_days s h rs)) = 2 \<and>
      year (fst (advance_days s h rs)) = year s \<and>
      message_log (fst (advance_days s h rs)) =
        message_log s @ [fst (monthly_evaluation (s\<lparr>day := 1, month := 2\<rparr>) h (last rs))]"
    if a: "day s = 1" "month s = 1" "length rs = 30"
  proof -
    let ?s2 = "s\<lparr>day := 1, month := 2\<rparr>"
    obtain msg s' h' where ev: "monthly_evaluation ?s2 h (last rs) = (msg, s', h')"
      by (cases "monthly_evaluation ?s2 h (last rs)") auto
    have run: "advance_days s h rs = (s'\<lparr>message_log := message_log s' @ [msg]\<rparr>, h')"
      using thirty_days [OF a, of h] ev by simp
    have frame: "day s' = 1 \<and> month s' = 2 \<and> year s' = year s \<and> message_log s' = message_log s"
      using monthly_evaluation_clock [of ?s2 h "last rs"] ev by simp
    show ?thesis using run ev frame by simp
  qed
  show ?thesis
    using month_part advance_day_within_month [of s h r] advance_day_rollover [of s h r]
      advance_day_year_rollover [of s h r]
    by blast
qed

theorem advance_day_clock_witness:
  "day trainee_start = 1 \<and> month trainee_start = 1 \<and> length (replicate 30 (0::nat)) = 30 \<and>
   day (fst (advance_days trainee_start start_heap (replicate 30 0))) = 1 \<and>
   month (fst (advance_days trainee_start start_heap (replicate 30 0))) = 2 \<and>
   length (message_log (fst (advance_days trainee_start start_heap (replicate 30 0)))) = 1 \<and>
   day (trainee_start\<lparr>day := 7\<rparr>) + 1 \<le> 30 \<and>
   day (fst (advance_day (trainee_start\<lparr>day := 7\<rparr>) start_heap 0)) = 8 \<and>
   30 < day (trainee_start\<lparr>day := 30, month := 3\<rparr>) + 1 \<and>
   month (trainee_start\<lparr>day := 30, month := 3\<rparr>) + 1 \<le> 12 \<and>
   month (fst (advance_day (trainee_start\<lparr>day := 30, month := 3\<rparr>) start_heap 0)) = 4 \<and>
   30 < day (trainee_start\<lparr>day := 30, month := 12\<rparr>) + 1 \<and>
   12 < month (trainee_start\<lparr>day := 30, month := 12\<rparr>) + 1 \<and>
   year (fst (advance_day (trainee_start\<lparr>day := 30, month := 12\<rparr>) start_heap 0)) = 2"
  using advance_day_clock [where s = trainee_start and h = start_heap and rs = "replicate 30 0" and r = 0]
    advance_day_clock [where s = "trainee_start\<lparr>day := 7\<rparr>" and h = start_heap and rs = "[]" and r = 0]
    advance_day_clock [where s = "trainee_start\<lparr>day := 30, month := 3\<rparr>" and h = start_heap and rs = "[]" and r = 0]
    advance_day_clock [where s = "trainee_start\<lparr>day := 30, month := 12\<rparr>" and h = start_heap and rs = "[]" and r = 0]
    monthly_evaluation_clock [of "trainee_start\<lparr>day := 1, month := 4\<rparr>" start_heap 0]
    monthly_evaluation_clock [of "trainee_start\<lparr>day := 1, month := 1, year := 2\<rparr>" start_heap 0]
  by (simp add: trainee_start_def split: prod.splits)

subsection \<open>Victory and defeat\<close>

text \<open>
  C4. \<open>check_victory_or_defeat\<close> returns a verdict and nothing else: its body has no
  assignment, and the embedding has no state to return. For a player of role \<open>CEO\<close>
  and a company whose money is \<open>-2001\<close> (or anything below \<open>-2000\<close>) the verdict is
  the bankruptcy message, whatever the groups, the reputation, the year and the rest
  of the state are. The verdict is \<open>None\<close> exactly when no condition of the active role
  holds.
\<close>

theorem check_victory_ceo_bankruptcy:
  "(player s = Some p \<and> role p = ''CEO'' \<and> company s = Some c \<and> money c = - 2001 \<longrightarrow>
      check_victory_or_defeat s h = Some ''Bankruptcy! Your company could not pay its bills.'') \<and>
   (player s = Some p \<and> role p = ''CEO'' \<and> company s = Some c \<and> money c < - 2000 \<longrightarrow>
      check_victory_or_defeat s h = Some ''Bankruptcy! Your company could not pay its bills.'') \<and>
   (check_victory_or_defeat s h = None \<longleftrightarrow>
      (\<forall>c. ceo_mode s = Some c \<longrightarrow>
         \<not> money c < - 2000 \<and> \<not> (\<exists>g \<in> set (groups c). 300 \<le> g_popularity (group_at h ! g)) \<and> \<not> 5 < year s) \<and>
      (\<forall>tr. trainee_mode s = Some tr \<longrightarrow>
         \<not> (200 \<le> popularity (trainee_at h ! tr) \<and> 350 \<le> score (trainee_at h ! tr)) \<and>
         \<not> 3 \<le> trainee_failures s \<and> \<not> 5 < year s))"
proof -
  have a: "player s = Some p \<and> role p = ''CEO'' \<and> company s = Some c \<and> money c < - 2000 \<longrightarrow>
      check_victory_or_defeat s h = Some ''Bankruptcy! Your company could not pay its bills.''"
    by (simp add: check_victory_or_defeat_def ceo_mode_def)
  have b: "check_victory_or_defeat s h = None \<longleftrightarrow>
      (\<forall>c. ceo_mode s = Some c \<longrightarrow>
         \<not> money c < - 2000 \<and> \<not> (\<exists>g \<in> set (groups c). 300 \<le> g_popularity (group_at h ! g)) \<and> \<not> 5 < year s) \<and>
      (\<forall>tr. trainee_mode s = Some tr \<longrightarrow>
         \<not> (200 \<le> popularity (trainee_at h ! tr) \<and> 350 \<le> score (trainee_at h ! tr)) \<and>
         \<not> 3 \<le> trainee_failures s \<and> \<not> 5 < year s)"
    by (cases "ceo_mode s"; cases "trainee_mode s")
       (auto simp add: check_victory_or_defeat_def Let_def)
  from a b show ?thesis by simp
qed

theorem check_victory_ceo_bankruptcy_witness:
  "player (ceo_start\<lparr>company := Some (start_company\<lparr>money := - 2001, reputation := 500\<rparr>), year := 9\<rparr>)
     = Some \<lparr>p_name = ''Player'', role = ''CEO'', character = None\<rparr> \<and>
   role \<lparr>p_name = ''Player'', role = ''CEO'', character = None\<rparr> = ''CEO'' \<and>
   company (ceo_start\<lparr>company := Some (start_company\<lparr>money := - 2001, reputation := 500\<rparr>), year := 9\<rparr>)
     = Some (start_company\<lparr>money := - 2001, reputation := 500\<rparr>) \<and>
   money (start_company\<lparr>money := - 2001, reputation := 500\<rparr>) = - 2001 \<and>
   check_victory_or_defeat (ceo_start\<lparr>company := Some (start_company\<lparr>money := - 2001, reputation := 500\<rparr>), year := 9\<rparr>) start_heap
     = Some ''Bankruptcy! Your company could not pay its bills.'' \<and>
   check_victory_or_defeat ceo_start start_heap = None"
  using check_victory_ceo_bankruptcy
      [where s = "ceo_start\<lparr>company := Some (start_company\<lparr>money := - 2001, reputation := 500\<rparr>), year := 9\<rparr>"
         and p = "\<lparr>p_name = ''Player'', role = ''CEO'', character = None\<rparr>"
         and c = "start_company\<lparr>money := - 2001, reputation := 500\<rparr>" and h = start_heap]
    check_victory_ceo_bankruptcy
      [where s = ceo_start and p = "\<lparr>p_name = ''Player'', role = ''CEO'', character = None\<rparr>"
         and c = start_company and h = start_heap]
  by (simp add: ceo_start_def start_company_def ceo_mode_def trainee_mode_def)

text \<open>
  C5. For a player of role \<open>Trainee\<close> whose character has popularity 200 and every
  skill at 70, the score is 350 and the verdict is the sensation message, for every
  value of \<open>trainee_failures\<close> and of \<open>year\<close>.
\<close>

theorem check_victory_trainee_sensation:
  "player s = Some p \<and> role p = ''Trainee'' \<and> character p = Some tr \<and>
   popularity (trainee_at h ! tr) = 200 \<and> vocal (trainee_at h ! tr) = 70 \<and>
   dance (trainee_at h ! tr) = 70 \<and> rap (trainee_at h ! tr) = 70 \<and>
   visual (trainee_at h ! tr) = 70 \<and> charisma (trainee_at h ! tr) = 70 \<longrightarrow>
   score (trainee_at h ! tr) = 350 \<and>
   check_victory_or_defeat (s\<lparr>trainee_failures := f, year := y\<rparr>) h
     = Some ''You debuted and became a sensation!''"
  by (simp add: check_victory_or_defeat_def ceo_mode_def trainee_mode_def score_def)

theorem check_victory_trainee_sensation_witness:
  "player trainee_start = Some \<lparr>p_name = ''Player'', role = ''Trainee'', character = Some 3\<rparr> \<and>
   role \<lparr>p_name = ''Player'', role = ''Trainee'', character = Some 3\<rparr> = ''Trainee'' \<and>
   character \<lparr>p_name = ''Player'', role = ''Trainee'', character = Some 3\<rparr> = Some 3 \<and>
   trainee_at (start_heap\<lparr>trainee_at := (trainee_at start_heap)[3 := star_trainee]\<rparr>) ! 3 = star_trainee \<and>
   popularity star_trainee = 200 \<and> vocal star_trainee = 70 \<and> dance star_trainee = 70 \<and>
   rap star_trainee = 70 \<and> visual star_trainee = 70 \<and> charisma star_trainee = 70 \<and>
   check_victory_or_defeat (trainee_start\<lparr>trainee_failures := 7, year := 9\<rparr>)
       (start_heap\<lparr>trainee_at := (trainee_at start_heap)[3 := star_trainee]\<rparr>)
     = Some ''You debuted and became a sensation!''"
  using check_victory_trainee_sensation
      [where s = trainee_start and p = "\<lparr>p_name = ''Player'', role = ''Trainee'', character = Some 3\<rparr>"
         and tr = 3 and h = "start_heap\<lparr>trainee_at := (trainee_at start_heap)[3 := star_trainee]\<rparr>"
         and f = 7 and y = 9]
  by (simp add: trainee_start_def start_heap_def star_trainee_def Trainee_def)

subsection \<open>Monthly evaluation with no trainee character\<close>

text \<open>
  C6, as stated, fails: with no player at all but a company that has a group of
  popularity 100, \<open>monthly_evaluation\<close> returns the income report and the money goes
  from 100 to 150.
\<close>

theorem monthly_evaluation_income_without_player:
  "player playerless_state = None \<and>
   fst (monthly_evaluation playerless_state band_heap 0) \<noteq> ''The month rolls by without major events.'' \<and>
   map_option money (company playerless_state) = Some 100 \<and>
   map_option money (company (fst (snd (monthly_evaluation playerless_state band_heap 0)))) = Some 150"
  by (simp add: monthly_evaluation_def trainee_mode_def playerless_state_def band_heap_def
      solo_company_def update_finances_def Let_def)

text \<open>
  C6, amended. When the trainee branch does not apply (no player, or a role other than
  \<open>Trainee\<close>, or no character) and the state has no company, \<open>monthly_evaluation\<close>
  returns the generic message and changes nothing. When it does not apply and there is
  a company, whatever the role, the income of the groups is added to the money and
  nothing else changes.
\<close>

theorem monthly_evaluation_no_role:
  "((player s = None \<or> (\<exists>p. player s = Some p \<and> (role p \<noteq> ''Trainee'' \<or> character p = None))) \<and>
    company s = None \<longrightarrow>
      monthly_evaluation s h r = (''The month rolls by without major events.'', s, h)) \<and>
   ((player s = None \<or> (\<exists>p. player s = Some p \<and> (role p \<noteq> ''Trainee'' \<or> character p = None))) \<and>
    company s = Some c \<longrightarrow>
      monthly_evaluation s h r =
        (''Monthly income report: earned ''
           @ str_int (sum_list (map (\<lambda>g. g_popularity (group_at h ! g) div 2) (groups c)))
           @ '' from active groups.'',
         s\<lparr>company := Some (c\<lparr>money := money c
              + sum_list (map (\<lambda>g. g_popularity (group_at h ! g) div 2) (groups c))\<rparr>)\<rparr>, h))"
  by (auto simp add: monthly_evaluation_def trainee_mode_def update_finances_def Let_def)

theorem monthly_evaluation_no_role_witness:
  "player (playerless_state\<lparr>company := None\<rparr>) = None \<and>
   company (playerless_state\<lparr>company := None\<rparr>) = None \<and>
   monthly_evaluation (playerless_state\<lparr>company := None\<rparr>) band_heap 0 =
     (''The month rolls by without major events.'', playerless_state\<lparr>company := None\<rparr>, band_heap) \<and>
   player playerless_state = None \<and> company playerless_state = Some solo_company \<and>
   snd (monthly_evaluation playerless_state band_heap 0) =
     (playerless_state\<lparr>company := Some (solo_company\<lparr>money := 150\<rparr>)\<rparr>, band_heap)"
  using monthly_evaluation_no_role [where s = "playerless_state\<lparr>company := None\<rparr>" and h = band_heap and r = 0]
    monthly_evaluation_no_role [where s = playerless_state and h = band_heap and r = 0 and c = solo_company]
  by (simp add: playerless_state_def solo_company_def band_heap_def)

subsection \<open>Random events\<close>

lemma literal_order: "lit_0_08 < lit_0_92"
  by (simp add: lit_0_08_def lit_0_92_def)

text \<open>
  C9. A draw in the closed band between the literals 0.08 and 0.92 makes
  \<open>random_event\<close> return \<open>None\<close> with the state and the store as they were. No draw is
  both below 0.08 and above 0.92: a draw below 0.08 runs the body of the first \<open>if\<close>
  only and a draw above 0.92 the body of the second only, so a call produces at most
  one message.
\<close>

theorem random_event_band:
  "(lit_0_08 \<le> roll \<and> roll \<le> lit_0_92 \<longrightarrow> random_event s h roll r = Inr (None, s, h)) \<and>
   \<not> (roll < lit_0_08 \<and> lit_0_92 < roll) \<and>
   (roll < lit_0_08 \<longrightarrow>
      random_event s h roll r =
        (case negative_event s h r of
           Inl e \<Rightarrow> Inl e
         | Inr (Some (msg, s', h')) \<Rightarrow> Inr (Some msg, s', h')
         | Inr None \<Rightarrow> Inr (None, s, h))) \<and>
   (lit_0_92 < roll \<longrightarrow>
      random_event s h roll r =
        (case positive_event s h r of
           Inl e \<Rightarrow> Inl e
         | Inr (Some (msg, s', h')) \<Rightarrow> Inr (Some msg, s', h')
         | Inr None \<Rightarrow> Inr (None, s, h)))"
proof -
  have band: "lit_0_08 \<le> roll \<and> roll \<le> lit_0_92 \<longrightarrow> random_event s h roll r = Inr (None, s, h)"
    by (simp add: random_event_def)
  have excl: "\<not> (roll < lit_0_08 \<and> lit_0_92 < roll)"
    using literal_order by simp
  have neg: "roll < lit_0_08 \<longrightarrow>
      random_event s h roll r =
        (case negative_event s h r of
           Inl e \<Rightarrow> Inl e
         | Inr (Some (msg, s', h')) \<Rightarrow> Inr (Some msg, s', h')
         | Inr None \<Rightarrow> Inr (None, s, h))"
    using literal_order by (auto simp add: random_event_def split: sum.splits option.splits)
  have pos: "lit_0_92 < roll \<longrightarrow>
      random_event s h roll r =
        (case positive_event s h r of
           Inl e \<Rightarrow> Inl e
         | Inr (Some (msg, s', h')) \<Rightarrow> Inr (Some msg, s', h')
         | Inr None \<Rightarrow> Inr (None, s, h))"
    using literal_order by (auto simp add: random_event_def split: sum.splits option.splits)
  from band excl neg pos show ?thesis by blast
qed

theorem random_event_band_witness:
  "lit_0_08 \<le> 1 / 2 \<and> 1 / 2 \<le> lit_0_92 \<and>
   random_event ceo_start start_heap (1 / 2) 7 = Inr (None, ceo_start, start_heap) \<and>
   1 / 100 < lit_0_08 \<and>
   random_event ceo_start start_heap (1 / 100) 7 =
     Inr (Some ''Unexpected venue cancellation. Lost 207 in fees.'',
          ceo_start\<lparr>company := Some (start_company\<lparr>money := 4793\<rparr>)\<rparr>, start_heap) \<and>
   lit_0_92 < 99 / 100 \<and>
   random_event trainee_start start_heap (99 / 100) 7 =
     Inr (Some ''Fan edit goes viral. Popularity +15.'', trainee_start,
          upd_trainee start_heap 3 (adjust_popularity 15))"
proof -
  have neg: "negative_event ceo_start start_heap 7 =
      Inr (Some (''Unexpected venue cancellation. Lost 207 in fees.'',
                 ceo_start\<lparr>company := Some (start_company\<lparr>money := 4793\<rparr>)\<rparr>, start_heap))"
    by (simp add: negative_event_def ceo_start_def start_company_def randint_def str_int_def
        str_nat_digit str_nat_more digit_char_def Let_def)
  have pos: "positive_event trainee_start start_heap 7 =
      Inr (Some (''Fan edit goes viral. Popularity +15.'', trainee_start,
                 upd_trainee start_heap 3 (adjust_popularity 15)))"
    by (simp add: positive_event_def trainee_start_def randint_def str_int_def
        str_nat_digit str_nat_more digit_char_def Let_def)
  have lits: "lit_0_08 \<le> 1 / 2 \<and> 1 / 2 \<le> lit_0_92 \<and> 1 / 100 < lit_0_08 \<and> lit_0_92 < 99 / 100"
    by (simp add: lit_0_08_def lit_0_92_def)
  show ?thesis
    using lits neg pos
      random_event_band [where roll = "1 / 2" and s = ceo_start and h = start_heap and r = 7]
      random_event_band [where roll = "1 / 100" and s = ceo_start and h = start_heap and r = 7]
      random_event_band [where roll = "99 / 100" and s = trainee_start and h = start_heap and r = 7]
    by simp
qed


subsection \<open>Group: popularity\<close>

lemma score_adjust_popularity: "score (adjust_popularity d t) = score t"
  by (simp add: score_def adjust_popularity_def)

lemma score_adjust_relationship: "score (adjust_relationship d t) = score t"
  by (simp add: score_def adjust_relationship_def)

lemma score_upd_trainee:
  assumes "\<And>t. score (f t) = score t"
  shows "score (trainee_at (upd_trainee h r f) ! k) = score (trainee_at h ! k)"
proof (cases "r < length (trainee_at h)")
  case True
  then show ?thesis using assms by (simp add: upd_trainee_def nth_list_update)
next
  case False
  then have "length (trainee_at h) \<le> r" by simp
  then have "(trainee_at h)[r := f (trainee_at h ! r)] = trainee_at h" by (rule list_update_beyond)
  then show ?thesis by (simp add: upd_trainee_def)
qed

lemma member_power_cong:
  assumes "\<And>k. score (trainee_at h' ! k) = score (trainee_at h ! k)"
  shows "member_power h' g = member_power h g"
  using assms by (simp add: member_power_def)

lemma groups_ok_same_scores:
  assumes "groups_ok h" and "group_at h' = group_at h"
    and "\<And>k. score (trainee_at h' ! k) = score (trainee_at h ! k)"
  shows "groups_ok h'"
  using assms(1,2) member_power_cong [of h' h, OF assms(3)] by (simp add: groups_ok_def)

lemma groups_ok_upd_trainee:
  assumes "groups_ok h" and "\<And>t. score (f t) = score t"
  shows "groups_ok (upd_trainee h r f)"
proof (rule groups_ok_same_scores [OF assms(1)])
  show "group_at (upd_trainee h r f) = group_at h" by (simp add: upd_trainee_def)
  show "score (trainee_at (upd_trainee h r f) ! k) = score (trainee_at h ! k)" for k
    using assms(2) by (rule score_upd_trainee)
qed

lemma groups_ok_fold_adjust:
  "groups_ok h \<Longrightarrow> groups_ok (fold (\<lambda>m hh. upd_trainee hh m (adjust_popularity d)) ms h)"
proof (induction ms arbitrary: h)
  case Nil
  then show ?case by simp
next
  case (Cons m ms)
  have "groups_ok (upd_trainee h m (adjust_popularity d))"
    using Cons.prems score_adjust_popularity by (rule groups_ok_upd_trainee)
  then show ?case using Cons.IH by simp
qed

lemma groups_ok_gain:
  assumes "groups_ok h" and "gr < length (group_at h) \<Longrightarrow> 0 \<le> d"
  shows "groups_ok (upd_group h gr (\<lambda>g. g\<lparr>g_popularity := g_popularity g + d\<rparr>))"
proof (cases "gr < length (group_at h)")
  case True
  let ?g = "group_at h ! gr"
  let ?g' = "?g\<lparr>g_popularity := g_popularity ?g + d\<rparr>"
  have mem: "?g \<in> set (group_at h)" using True by simp
  have sub: "set ((group_at h)[gr := ?g']) \<subseteq> insert ?g' (set (group_at h))"
    by (rule set_update_subset_insert)
  have mp: "member_power (upd_group h gr f) g = member_power h g" for f g
    by (simp add: member_power_def upd_group_def)
  have new: "0 \<le> g_popularity ?g' \<and> 50 \<le> member_power h ?g'"
    using assms True mem by (simp add: groups_ok_def member_power_def)
  show ?thesis
    unfolding groups_ok_def
  proof
    fix g
    assume "g \<in> set (group_at (upd_group h gr (\<lambda>g. g\<lparr>g_popularity := g_popularity g + d\<rparr>)))"
    then have "g = ?g' \<or> g \<in> set (group_at h)" using sub by (auto simp add: upd_group_def)
    then show "0 \<le> g_popularity g \<and>
        50 \<le> member_power (upd_group h gr (\<lambda>g. g\<lparr>g_popularity := g_popularity g + d\<rparr>)) g"
      using new assms(1) by (auto simp add: mp groups_ok_def)
  qed
next
  case False
  then have "length (group_at h) \<le> gr" by simp
  then have "(group_at h)[gr := f (group_at h ! gr)] = group_at h" for f by (rule list_update_beyond)
  then have "upd_group h gr f = h" for f by (simp add: upd_group_def)
  with assms(1) show ?thesis by simp
qed

lemma group_member_power:
  "groups_ok h \<Longrightarrow> gr < length (group_at h) \<Longrightarrow> 50 \<le> member_power h (group_at h ! gr)"
  by (simp add: groups_ok_def)

lemma groups_ok_debut_effect:
  assumes "groups_ok h" and "0 \<le> budget"
  shows "groups_ok (snd (debut_effect h gr budget ra rb))"
proof -
  let ?d = "calculate_power h (group_at h ! gr) ra div 5 + budget div 10 + randint (- 10) 15 rb"
  have "0 \<le> ?d" if "gr < length (group_at h)"
  proof -
    have "50 \<le> member_power h (group_at h ! gr)" using assms(1) that by (rule group_member_power)
    moreover have "0 \<le> randint 0 15 ra" using randint_bounds [of 0 15 ra] by simp
    moreover have "- 10 \<le> randint (- 10) 15 rb" using randint_bounds [of "- 10" 15 rb] by simp
    moreover have "0 \<le> budget div 10" using assms(2) by simp
    ultimately have "0 \<le> (member_power h (group_at h ! gr) + randint 0 15 ra) div 5 + budget div 10
        + randint (- 10) 15 rb"
      by arith
    then show ?thesis by (simp add: calculate_power_def Let_def)
  qed
  then have "groups_ok (upd_group h gr (\<lambda>g. g\<lparr>g_popularity := g_popularity g + ?d\<rparr>))"
    using assms(1) by (intro groups_ok_gain)
  then show ?thesis by (simp add: debut_effect_def Let_def groups_ok_fold_adjust)
qed

lemma groups_ok_release_song:
  assumes "groups_ok h" and "0 \<le> budget"
  shows "groups_ok (snd (snd (release_song c h gr title budget ra rb crit)))"
proof (cases "money c < budget")
  case True
  with assms(1) show ?thesis by (simp add: release_song_def)
next
  case False
  let ?p = "\<lparr>sp_title = title, sp_budget = budget, sp_concept = ''Bright''\<rparr>"
  let ?d = "outcome ?p (calculate_power h (group_at h ! gr) ra) rb crit"
  have "0 \<le> ?d" if "gr < length (group_at h)"
  proof -
    have "50 \<le> member_power h (group_at h ! gr)" using assms(1) that by (rule group_member_power)
    moreover have "0 \<le> randint 0 15 ra" using randint_bounds [of 0 15 ra] by simp
    moreover have "- 15 \<le> randint (- 15) 25 rb" using randint_bounds [of "- 15" 25 rb] by simp
    moreover have "0 \<le> budget div 15" using assms(2) by simp
    ultimately have "0 \<le> (member_power h (group_at h ! gr) + randint 0 15 ra) div 3 + budget div 15
        + randint (- 15) 25 rb"
      by arith
    then show ?thesis by (simp add: outcome_def calculate_power_def Let_def)
  qed
  then have "groups_ok (upd_group h gr (\<lambda>g. g\<lparr>g_popularity := g_popularity g + ?d\<rparr>))"
    using assms(1) by (intro groups_ok_gain)
  with False show ?thesis by (simp add: release_song_def Let_def)
qed

lemma groups_ok_promote:
  assumes "groups_ok h" and "0 \<le> budget"
  shows "groups_ok (snd (snd (promote c h gr budget r)))"
proof (cases "money c < budget")
  case True
  with assms(1) show ?thesis by (simp add: promote_def)
next
  case False
  have "0 \<le> budget div 20 + randint 0 10 r"
    using randint_bounds [of 0 10 r] assms(2) by simp
  then have "groups_ok (upd_group h gr (\<lambda>g. g\<lparr>g_popularity := g_popularity g + (budget div 20 + randint 0 10 r)\<rparr>))"
    using assms(1) by (intro groups_ok_gain)
  with False show ?thesis by (simp add: promote_def Let_def)
qed

lemma groups_ok_monthly_evaluation:
  assumes "groups_ok h"
  shows "groups_ok (snd (snd (monthly_evaluation s h r)))"
proof -
  have a: "groups_ok (upd_trainee (upd_trainee h tr (adjust_relationship 5)) tr (adjust_popularity 5))" for tr
    using assms score_adjust_relationship score_adjust_popularity
    by (intro groups_ok_upd_trainee)
  have b: "groups_ok (upd_trainee h tr (adjust_relationship x))" for tr x
    using assms score_adjust_relationship by (rule groups_ok_upd_trainee)
  show ?thesis
    using assms a b by (simp add: monthly_evaluation_def Let_def split: option.splits)
qed

lemma groups_ok_negative_event:
  assumes "groups_ok h" and "negative_event s h r = Inr (Some (msg, s', h'))"
  shows "groups_ok h'"
proof -
  have inj: "groups_ok (upd_trainee h tr (\<lambda>t. t\<lparr>stamina := max 0 (stamina t - d)\<rparr>))" for tr d
    using assms(1) by (rule groups_ok_upd_trainee) (simp add: score_def)
  show ?thesis
    using assms inj
    by (auto simp add: negative_event_def Let_def split: option.splits if_splits)
qed

lemma groups_ok_positive_event:
  assumes "groups_ok h" and "positive_event s h r = Inr (Some (msg, s', h'))"
  shows "groups_ok h'"
proof -
  have boost: "groups_ok (upd_trainee h tr (adjust_popularity x))" for tr x
    using assms(1) score_adjust_popularity by (rule groups_ok_upd_trainee)
  have "0 \<le> randint 300 900 r div 10" using randint_bounds [of 300 900 r] by arith
  then have viral: "groups_ok (upd_group h gr (\<lambda>g. g\<lparr>g_popularity := g_popularity g + randint 300 900 r div 10\<rparr>))" for gr
    using assms(1) by (intro groups_ok_gain)
  show ?thesis
    using assms boost viral
    by (auto simp add: positive_event_def Let_def split: option.splits if_splits)
qed

lemma groups_ok_random_event:
  assumes "groups_ok h" and "random_event s h roll r = Inr (m, s', h')"
  shows "groups_ok h'"
  using assms groups_ok_negative_event [OF assms(1)] groups_ok_positive_event [OF assms(1)]
  by (auto simp add: random_event_def split: sum.splits option.splits if_splits)

lemma groups_ok_do_step:
  assumes "groups_ok (snd sh)" and "0 \<le> step_budget st"
  shows "groups_ok (snd (do_step sh st))"
proof (cases sh)
  case (Pair s h)
  with assms(1) have ok: "groups_ok h" by simp
  show ?thesis
  proof (cases st)
    case (Debut_effect g b ra rb)
    then show ?thesis using Pair ok assms(2) by (simp add: groups_ok_debut_effect)
  next
    case (Release_song g t b ra rb cr)
    then have "0 \<le> b" using assms(2) by simp
    then have "groups_ok (snd (snd (release_song c h g t b ra rb cr)))" for c
      using ok by (intro groups_ok_release_song)
    then show ?thesis using Pair ok Release_song
      by (auto split: option.splits prod.splits) (metis snd_conv)
  next
    case (Promote g b r)
    then have "0 \<le> b" using assms(2) by simp
    then have "groups_ok (snd (snd (promote c h g b r)))" for c
      using ok by (intro groups_ok_promote)
    then show ?thesis using Pair ok Promote
      by (auto split: option.splits prod.splits) (metis snd_conv)
  next
    case (Random_event roll r)
    then show ?thesis using Pair ok groups_ok_random_event [OF ok]
      by (auto split: sum.splits prod.splits)
  next
    case (Monthly_evaluation r)
    then show ?thesis using Pair groups_ok_monthly_evaluation [OF ok, of s r]
      by (auto split: prod.splits)
  qed
qed

lemma groups_ok_steps:
  "groups_ok (snd sh) \<Longrightarrow> \<forall>st \<in> set steps. 0 \<le> step_budget st \<Longrightarrow>
   groups_ok (snd (foldl do_step sh steps))"
proof (induction steps arbitrary: sh)
  case Nil
  then show ?case by simp
next
  case (Cons st steps)
  have "groups_ok (snd (do_step sh st))" using Cons.prems by (intro groups_ok_do_step) simp_all
  then show ?case using Cons.IH Cons.prems(2) by simp
qed

lemma band_run:
  "map g_popularity (group_at (snd (foldl do_step (band_state, band_heap) (take 5 band_steps))))
     = [209]"
  by (simp add: band_steps_def band_state_def band_heap_def solo_company_def release_song_def
      promote_def debut_effect_def random_event_def positive_event_def negative_event_def
      monthly_evaluation_def trainee_mode_def outcome_def calculate_power_def member_power_def
      score_def Trainee_def upd_group_def upd_trainee_def adjust_popularity_def update_finances_def
      randint_def lit_0_1_def lit_0_08_def lit_0_92_def Let_def)

text \<open>
  C2, as stated, fails: nothing clamps the popularity of a group. For a group with no
  member and popularity 0, \<open>release_song\<close> with budget 1, the lowest roll and no critical
  gives the result \<open>-15\<close> and the popularity \<open>-15\<close>; \<open>debut_effect\<close> with budget 0 and
  the lowest draws gives \<open>-10\<close>.
\<close>

theorem release_song_negative_popularity:
  "g_popularity (group_at memberless_heap ! 0) = 0 \<and>
   g_popularity (group_at (snd (snd (release_song solo_company memberless_heap 0 ''Debut'' 1 0 0 (1 / 2)))) ! 0)
     = - 15 \<and>
   g_popularity (group_at (snd (debut_effect memberless_heap 0 0 0 0)) ! 0) = - 10"
  by (simp add: release_song_def debut_effect_def outcome_def calculate_power_def member_power_def
      upd_group_def randint_def lit_0_1_def solo_company_def memberless_heap_def Let_def)

text \<open>
  C2, amended. The popularity of a group is never clamped: each operation adds the
  amount it computes. When every group of the store has a popularity that is not
  negative and members whose average score is at least 50, and every budget is at least
  0, then after each operation of any sequence of \<open>debut_effect\<close>, \<open>release_song\<close>,
  \<open>promote\<close>, random events and monthly evaluations the popularity of every group is at
  least 0.
\<close>

theorem group_popularity_kept:
  "groups_ok h \<and> (\<forall>st \<in> set steps. 0 \<le> step_budget st) \<longrightarrow>
   (\<forall>n \<le> length steps. \<forall>g \<in> set (group_at (snd (foldl do_step (s, h) (take n steps)))).
      0 \<le> g_popularity g)"
proof (intro impI allI)
  fix n
  assume a: "groups_ok h \<and> (\<forall>st \<in> set steps. 0 \<le> step_budget st)" and "n \<le> length steps"
  have "\<forall>st \<in> set (take n steps). 0 \<le> step_budget st"
    using a by (meson in_set_takeD)
  moreover have "groups_ok (snd (s, h))" using a by simp
  ultimately have "groups_ok (snd (foldl do_step (s, h) (take n steps)))"
    by (intro groups_ok_steps)
  then show "\<forall>g \<in> set (group_at (snd (foldl do_step (s, h) (take n steps)))). 0 \<le> g_popularity g"
    by (simp add: groups_ok_def)
qed

theorem group_popularity_kept_witness:
  "groups_ok band_heap \<and> list_all (\<lambda>st. 0 \<le> step_budget st) band_steps \<and>
   (5::nat) \<le> length band_steps \<and>
   map g_popularity (group_at (snd (foldl do_step (band_state, band_heap) (take 5 band_steps)))) = [209] \<and>
   list_all (\<lambda>g. 0 \<le> g_popularity g)
     (group_at (snd (foldl do_step (band_state, band_heap) (take 5 band_steps))))"
proof -
  have ok: "groups_ok band_heap"
    by (simp add: groups_ok_def band_heap_def member_power_def score_def Trainee_def)
  have budgets: "\<forall>st \<in> set band_steps. 0 \<le> step_budget st"
    by (simp add: band_steps_def)
  have len: "(5::nat) \<le> length band_steps"
    by (simp add: band_steps_def)
  have kept: "\<forall>g \<in> set (group_at (snd (foldl do_step (band_state, band_heap) (take 5 band_steps)))).
      0 \<le> g_popularity g"
    using ok budgets len
      group_popularity_kept [where h = band_heap and steps = band_steps and s = band_state]
    by blast
  from ok budgets len kept band_run show ?thesis by (simp add: list_all_iff)
qed

subsection \<open>Trainee mode: participating in an evaluation\<close>

lemma evaluation_failure:
  assumes "player s = Some p" and "character p = Some tr"
    and "score (trainee_at h ! tr) + randint (- 10) 25 ra < 210 + year s * 10"
  shows "snd (handle_trainee_action s h 4 typed ra rb) =
     (s\<lparr>trainee_failures := trainee_failures s + 1\<rparr>, upd_trainee h tr (adjust_relationship (- 5)))"
  using assms by (simp add: handle_trainee_action_def Let_def)

lemma evaluation_success:
  assumes "player s = Some p" and "character p = Some tr"
    and "210 + year s * 10 \<le> score (trainee_at h ! tr) + randint (- 10) 25 ra"
  shows "snd (handle_trainee_action s h 4 typed ra rb) =
     (s, upd_trainee (upd_trainee h tr (adjust_popularity 10)) tr (adjust_relationship 5))"
  using assms by (simp add: handle_trainee_action_def Let_def)

lemma relationship_after_failure:
  "tr < length (trainee_at h) \<Longrightarrow>
   relationship (trainee_at (upd_trainee h tr (adjust_relationship (- 5))) ! tr) =
     max 0 (min 100 (relationship (trainee_at h ! tr) - 5))"
  by (simp add: upd_trainee_def adjust_relationship_def)

lemma start_fails:
  assumes "player s = player trainee_start" and "year s = 1"
    and "score (trainee_at h ! 3) = 170"
  shows "snd (handle_trainee_action s h 4 typed ra rb) =
     (s\<lparr>trainee_failures := trainee_failures s + 1\<rparr>, upd_trainee h 3 (adjust_relationship (- 5)))"
proof (rule evaluation_failure)
  show "player s = Some \<lparr>p_name = ''Player'', role = ''Trainee'', character = Some 3\<rparr>"
    using assms(1) by (simp add: trainee_start_def)
  show "character \<lparr>p_name = ''Player'', role = ''Trainee'', character = Some 3\<rparr> = Some 3" by simp
  have "randint (- 10) 25 ra \<le> 25" using randint_bounds [of "- 10" 25 ra] by simp
  then show "score (trainee_at h ! 3) + randint (- 10) 25 ra < 210 + year s * 10"
    using assms(2,3) by simp
qed

lemma three_failures:
  "evaluations trainee_start start_heap [ra, rb, rc] =
     (trainee_start\<lparr>trainee_failures := 3\<rparr>,
      upd_trainee (upd_trainee (upd_trainee start_heap 3 (adjust_relationship (- 5))) 3
        (adjust_relationship (- 5))) 3 (adjust_relationship (- 5)))"
proof -
  let ?h1 = "upd_trainee start_heap 3 (adjust_relationship (- 5))"
  let ?h2 = "upd_trainee ?h1 3 (adjust_relationship (- 5))"
  have sc0: "score (trainee_at start_heap ! 3) = 170"
    by (simp add: start_heap_def score_def Trainee_def)
  have sc1: "score (trainee_at ?h1 ! 3) = 170"
    using sc0 by (simp add: score_upd_trainee score_adjust_relationship)
  have sc2: "score (trainee_at ?h2 ! 3) = 170"
    using sc1 by (simp add: score_upd_trainee score_adjust_relationship)
  have y: "year trainee_start = 1" by (simp add: trainee_start_def)
  have f0: "trainee_failures trainee_start = 0" by (simp add: trainee_start_def)
  have s1: "snd (handle_trainee_action trainee_start start_heap 4 [] ra 0) =
      (trainee_start\<lparr>trainee_failures := 1\<rparr>, ?h1)"
    using start_fails [of trainee_start start_heap "[]" ra 0] sc0 y f0 by simp
  have s2: "snd (handle_trainee_action (trainee_start\<lparr>trainee_failures := 1\<rparr>) ?h1 4 [] rb 0) =
      (trainee_start\<lparr>trainee_failures := 2\<rparr>, ?h2)"
    using start_fails [of "trainee_start\<lparr>trainee_failures := 1\<rparr>" ?h1 "[]" rb 0] sc1 y by simp
  have s3: "snd (handle_trainee_action (trainee_start\<lparr>trainee_failures := 2\<rparr>) ?h2 4 [] rc 0) =
      (trainee_start\<lparr>trainee_failures := 3\<rparr>, upd_trainee ?h2 3 (adjust_relationship (- 5)))"
    using start_fails [of "trainee_start\<lparr>trainee_failures := 2\<rparr>" ?h2 "[]" rc 0] sc2 y by simp
  show ?thesis
    using s1 s2 s3 by (simp add: case_prod_beta)
qed

text \<open>
  C10, as stated, fails in one detail: on failure the relationship goes through
  \<open>adjust_relationship(-5)\<close>, which stops at 0. After two failures from the start the
  relationship is 0, and the third failure leaves it at 0 while the count reaches 3.
\<close>

theorem evaluation_failure_relationship_floor:
  "relationship (trainee_at strained_heap ! 3) = 0 \<and>
   trainee_failures strained_state = 2 \<and>
   trainee_failures (fst (snd (handle_trainee_action strained_state strained_heap 4 [] 0 0))) = 3 \<and>
   relationship (trainee_at (snd (snd (handle_trainee_action strained_state strained_heap 4 [] 0 0))) ! 3) = 0"
  by (simp add: handle_trainee_action_def strained_state_def strained_heap_def trainee_start_def
      start_heap_def Trainee_def score_def randint_def upd_trainee_def adjust_relationship_def Let_def)

text \<open>
  C10, amended. Choice 4 of \<open>handle_trainee_action\<close> compares the score plus a draw
  from \<open>[-10, 25]\<close> with \<open>210 + 10 * year\<close>. Below the threshold it adds 1 to
  \<open>trainee_failures\<close> and applies \<open>adjust_relationship(-5)\<close>: the relationship falls by
  5, but not below 0. At or above the threshold the state (and so the count) is
  unchanged. From the start state of trainee mode three such actions fail whatever
  the draws: the count is 3 and the verdict is the cut message with the clock still on
  day 1 of month 1 and no message of a monthly evaluation in the log.
\<close>

theorem participate_in_evaluation:
  "(player s = Some p \<and> character p = Some tr \<and> tr < length (trainee_at h) \<longrightarrow>
      - 10 \<le> randint (- 10) 25 ra \<and> randint (- 10) 25 ra \<le> 25 \<and>
      (score (trainee_at h ! tr) + randint (- 10) 25 ra < 210 + 10 * year s \<longrightarrow>
         snd (handle_trainee_action s h 4 typed ra rb) =
           (s\<lparr>trainee_failures := trainee_failures s + 1\<rparr>,
            upd_trainee h tr (adjust_relationship (- 5))) \<and>
         relationship (trainee_at (snd (snd (handle_trainee_action s h 4 typed ra rb))) ! tr) =
           max 0 (min 100 (relationship (trainee_at h ! tr) - 5))) \<and>
      (210 + 10 * year s \<le> score (trainee_at h ! tr) + randint (- 10) 25 ra \<longrightarrow>
         fst (snd (handle_trainee_action s h 4 typed ra rb)) = s)) \<and>
   trainee_failures (fst (evaluations trainee_start start_heap [ra, rb, rc])) = 3 \<and>
   day (fst (evaluations trainee_start start_heap [ra, rb, rc])) = 1 \<and>
   month (fst (evaluations trainee_start start_heap [ra, rb, rc])) = 1 \<and>
   message_log (fst (evaluations trainee_start start_heap [ra, rb, rc])) = [] \<and>
   check_victory_or_defeat (fst (evaluations trainee_start start_heap [ra, rb, rc]))
       (snd (evaluations trainee_start start_heap [ra, rb, rc]))
     = Some ''You were cut after repeated failed evaluations.''"
proof -
  have one: "player s = Some p \<and> character p = Some tr \<and> tr < length (trainee_at h) \<longrightarrow>
      - 10 \<le> randint (- 10) 25 ra \<and> randint (- 10) 25 ra \<le> 25 \<and>
      (score (trainee_at h ! tr) + randint (- 10) 25 ra < 210 + 10 * year s \<longrightarrow>
         snd (handle_trainee_action s h 4 typed ra rb) =
           (s\<lparr>trainee_failures := trainee_failures s + 1\<rparr>,
            upd_trainee h tr (adjust_relationship (- 5))) \<and>
         relationship (trainee_at (snd (snd (handle_trainee_action s h 4 typed ra rb))) ! tr) =
           max 0 (min 100 (relationship (trainee_at h ! tr) - 5))) \<and>
      (210 + 10 * year s \<le> score (trainee_at h ! tr) + randint (- 10) 25 ra \<longrightarrow>
         fst (snd (handle_trainee_action s h 4 typed ra rb)) = s)"
    using randint_bounds [of "- 10" 25 ra]
      evaluation_failure [of s p tr h ra typed rb] evaluation_success [of s p tr h ra typed rb]
      relationship_after_failure [of tr h]
    by (simp add: mult.commute)
  let ?h3 = "upd_trainee (upd_trainee (upd_trainee start_heap 3 (adjust_relationship (- 5))) 3
        (adjust_relationship (- 5))) 3 (adjust_relationship (- 5))"
  have "score (trainee_at start_heap ! 3) = 170"
    by (simp add: start_heap_def score_def Trainee_def)
  then have sc: "score (trainee_at ?h3 ! 3) = 170"
    by (simp add: score_upd_trainee score_adjust_relationship)
  have cut: "check_victory_or_defeat (trainee_start\<lparr>trainee_failures := 3\<rparr>) ?h3
      = Some ''You were cut after repeated failed evaluations.''"
    using sc by (simp add: check_victory_or_defeat_def ceo_mode_def trainee_mode_def trainee_start_def)
  have run: "trainee_failures (fst (evaluations trainee_start start_heap [ra, rb, rc])) = 3 \<and>
   day (fst (evaluations trainee_start start_heap [ra, rb, rc])) = 1 \<and>
   month (fst (evaluations trainee_start start_heap [ra, rb, rc])) = 1 \<and>
   message_log (fst (evaluations trainee_start start_heap [ra, rb, rc])) = [] \<and>
   check_victory_or_defeat (fst (evaluations trainee_start start_heap [ra, rb, rc]))
       (snd (evaluations trainee_start start_heap [ra, rb, rc]))
     = Some ''You were cut after repeated failed evaluations.''"
  proof -
    have e: "evaluations trainee_start start_heap [ra, rb, rc] = (trainee_start\<lparr>trainee_failures := 3\<rparr>, ?h3)"
      by (rule three_failures)
    have fields: "day trainee_start = 1 \<and> month trainee_start = 1 \<and> message_log trainee_start = []"
      by (simp add: trainee_start_def)
    show ?thesis unfolding e using cut fields by simp
  qed
  from one run show ?thesis by (rule conjI)
qed

theorem participate_in_evaluation_witness:
  "player trainee_start = Some \<lparr>p_name = ''Player'', role = ''Trainee'', character = Some 3\<rparr> \<and>
   character \<lparr>p_name = ''Player'', role = ''Trainee'', character = Some 3\<rparr> = Some 3 \<and>
   3 < length (trainee_at start_heap) \<and>
   score (trainee_at start_heap ! 3) + randint (- 10) 25 0 < 210 + 10 * year trainee_start \<and>
   trainee_failures (fst (snd (handle_trainee_action trainee_start start_heap 4 [] 0 0))) = 1 \<and>
   relationship (trainee_at (snd (snd (handle_trainee_action trainee_start start_heap 4 [] 0 0))) ! 3) = 5 \<and>
   3 < length (trainee_at (upd_trainee start_heap 3 (\<lambda>_. star_trainee))) \<and>
   210 + 10 * year trainee_start
     \<le> score (trainee_at (upd_trainee start_heap 3 (\<lambda>_. star_trainee)) ! 3) + randint (- 10) 25 0 \<and>
   fst (snd (handle_trainee_action trainee_start (upd_trainee start_heap 3 (\<lambda>_. star_trainee)) 4 [] 0 0))
     = trainee_start"
proof -
  have pl: "player trainee_start = Some \<lparr>p_name = ''Player'', role = ''Trainee'', character = Some 3\<rparr>"
    by (simp add: trainee_start_def)
  have low: "3 < length (trainee_at start_heap) \<and>
      score (trainee_at start_heap ! 3) + randint (- 10) 25 0 < 210 + 10 * year trainee_start \<and>
      relationship (trainee_at start_heap ! 3) = 10 \<and> trainee_failures trainee_start = 0"
    by (simp add: start_heap_def trainee_start_def Trainee_def score_def randint_def)
  have high: "3 < length (trainee_at (upd_trainee start_heap 3 (\<lambda>_. star_trainee))) \<and>
      210 + 10 * year trainee_start
        \<le> score (trainee_at (upd_trainee start_heap 3 (\<lambda>_. star_trainee)) ! 3) + randint (- 10) 25 0"
    by (simp add: start_heap_def trainee_start_def star_trainee_def Trainee_def score_def randint_def
        upd_trainee_def)
  have a: "trainee_failures (fst (snd (handle_trainee_action trainee_start start_heap 4 [] 0 0))) = 1 \<and>
      relationship (trainee_at (snd (snd (handle_trainee_action trainee_start start_heap 4 [] 0 0))) ! 3) = 5"
    using pl low
      participate_in_evaluation [where s = trainee_start and h = start_heap and tr = 3 and ra = 0
        and rb = 0 and typed = "[]"
        and p = "\<lparr>p_name = ''Player'', role = ''Trainee'', character = Some 3\<rparr>", THEN conjunct1]
    by auto
  have b: "fst (snd (handle_trainee_action trainee_start (upd_trainee start_heap 3 (\<lambda>_. star_trainee)) 4 [] 0 0))
      = trainee_start"
    using pl high
      participate_in_evaluation [where s = trainee_start
        and h = "upd_trainee start_heap 3 (\<lambda>_. star_trainee)" and tr = 3 and ra = 0
        and rb = 0 and typed = "[]"
        and p = "\<lparr>p_name = ''Player'', role = ''Trainee'', character = Some 3\<rparr>", THEN conjunct1]
    by auto
  from pl low high a b show ?thesis by simp
qed

end
